theory Spec2Isabelle
  imports Main
begin

section \<open>The user service: records, requests and responses\<close>

text \<open>
  The repository holds two programs of one package: \<^verbatim>\<open>main.go\<close>, the plain service over
  MySQL, and its extension with a Redis cache and the generic key/value routes. The
  handlers below are those of the extension unless their name ends in \<open>_nocache\<close>.

  \<^verbatim>\<open>type User struct { ID int; Username string; Email string }\<close>
\<close>

record User =
  ID :: int
  Username :: string
  Email :: string

definition zero_User :: User where
  "zero_User = \<lparr>ID = 0, Username = [], Email = []\<rparr>"

subsection \<open>encoding/json: Marshal of a slice of users\<close>

text \<open>
  \<open>Itoa\<close> prints an integer in decimal, as the encoder does for an \<^verbatim>\<open>int\<close> field.
\<close>

definition digit :: "nat \<Rightarrow> char" where
  "digit n = ''0123456789abcdef'' ! n"

fun digits :: "nat \<Rightarrow> string" where
  "digits n = (if n < 10 then [digit n] else digits (n div 10) @ [digit (n mod 10)])"

declare digits.simps [simp del]

definition Itoa :: "int \<Rightarrow> string" where
  "Itoa i = (if i < 0 then CHR ''-'' # digits (nat (- i)) else digits (nat i))"

text \<open>
  The encoder's string escaping, byte by byte. An ASCII byte is copied unless it is a double
  quote, a backslash, a control character or one of \<^verbatim>\<open>< > &\<close> (Marshal escapes HTML).
  A valid UTF-8 sequence is copied, U+2028 and U+2029 excepted; a byte that starts no valid
  sequence becomes the escape of U+FFFD. \<open>rune_len\<close> is the length of the valid sequence at the
  head of the string, 0 when there is none.
\<close>

definition between :: "nat \<Rightarrow> char \<Rightarrow> nat \<Rightarrow> bool" where
  "between lo c hi = (lo \<le> of_char c \<and> of_char c \<le> hi)"

definition cont :: "char \<Rightarrow> bool" where
  "cont c = between 0x80 c 0xBF"

definition rune_len :: "string \<Rightarrow> nat" where
  "rune_len s =
    (case s of
       [] \<Rightarrow> 0
     | b # bs \<Rightarrow>
        (let n = (of_char b :: nat) in
         if n < 0x80 then 1
         else if 0xC2 \<le> n \<and> n \<le> 0xDF then
           (case bs of c1 # _ \<Rightarrow> if cont c1 then 2 else 0 | _ \<Rightarrow> 0)
         else if 0xE0 \<le> n \<and> n \<le> 0xEF then
           (case bs of
              c1 # c2 # _ \<Rightarrow>
                if between (if n = 0xE0 then 0xA0 else 0x80) c1 (if n = 0xED then 0x9F else 0xBF)
                   \<and> cont c2
                then 3 else 0
            | _ \<Rightarrow> 0)
         else if 0xF0 \<le> n \<and> n \<le> 0xF4 then
           (case bs of
              c1 # c2 # c3 # _ \<Rightarrow>
                if between (if n = 0xF0 then 0x90 else 0x80) c1 (if n = 0xF4 then 0x8F else 0xBF)
                   \<and> cont c2 \<and> cont c3
                then 4 else 0
            | _ \<Rightarrow> 0)
         else 0))"

definition backslash :: char where
  "backslash = CHR 0x5C"

definition dquote :: char where
  "dquote = CHR 0x22"

definition u00 :: "nat \<Rightarrow> string" where
  "u00 n = backslash # ''u00'' @ [digit (n div 16), digit (n mod 16)]"

definition escape_ascii :: "char \<Rightarrow> string" where
  "escape_ascii b =
    (let n = (of_char b :: nat) in
     if b = dquote \<or> b = backslash then [backslash, b]
     else if n = 0x08 then [backslash, CHR ''b'']
     else if n = 0x0C then [backslash, CHR ''f'']
     else if n = 0x0A then [backslash, CHR ''n'']
     else if n = 0x0D then [backslash, CHR ''r'']
     else if n = 0x09 then [backslash, CHR ''t'']
     else if n < 0x20 \<or> b = CHR ''<'' \<or> b = CHR ''>'' \<or> b = CHR ''&'' then u00 n
     else [b])"

fun escape :: "string \<Rightarrow> string" where
  "escape [] = []"
| "escape (b # bs) =
    (let k = rune_len (b # bs) in
     if (of_char b :: nat) < 0x80 then escape_ascii b @ escape bs
     else if k = 0 then backslash # ''ufffd'' @ escape bs
     else if k = 3 \<and> map of_char (b # take 2 bs) = [0xE2, 0x80, 0xA8 :: nat]
       then backslash # ''u2028'' @ escape (drop 2 bs)
     else if k = 3 \<and> map of_char (b # take 2 bs) = [0xE2, 0x80, 0xA9 :: nat]
       then backslash # ''u2029'' @ escape (drop 2 bs)
     else b # take (k - 1) bs @ escape (drop (k - 1) bs))"

definition quote :: "string \<Rightarrow> string" where
  "quote s = dquote # escape s @ [dquote]"

definition encode_User :: "User \<Rightarrow> string" where
  "encode_User u =
     ''{'' @ quote ''id'' @ '':'' @ Itoa (ID u) @ '','' @
     quote ''username'' @ '':'' @ quote (Username u) @ '','' @
     quote ''email'' @ '':'' @ quote (Email u) @ ''}''"

fun join :: "string \<Rightarrow> string list \<Rightarrow> string" where
  "join sep [] = []"
| "join sep [x] = x"
| "join sep (x # y # ys) = x @ sep @ join sep (y # ys)"

text \<open>
  \<^verbatim>\<open>var users []User\<close> is the nil slice until the first \<^verbatim>\<open>append\<close>, and a slice that
  has been appended to is never empty: the list \<open>[]\<close> stands for the nil slice, which Marshal
  encodes as \<^verbatim>\<open>null\<close>, and a non-empty list for a slice, encoded as a JSON array.
\<close>

definition encode_users :: "User list \<Rightarrow> string" where
  "encode_users users =
     (if users = [] then ''null'' else ''['' @ join '','' (map encode_User users) @ '']'')"

subsection \<open>encoding/json: Decode into a User\<close>

text \<open>
  The request body as the decoder reads it: either the first JSON value of the stream, or
  the error of a body that holds none (a syntax error, \<^verbatim>\<open>EOF\<close> for an empty body).
  \<open>JInt\<close> is a number written as an integer literal, \<open>JFrac\<close> any other number literal,
  kept as its text.
\<close>

datatype json =
    JNull
  | JBool bool
  | JInt int
  | JFrac string
  | JStr string
  | JArr "json list"
  | JObj "(string \<times> json) list"

text \<open>
  A key names a field when it equals the field's tag under the decoder's case folding:
  ASCII letters without their case, and the two letters outside ASCII that fold to ASCII
  ones (U+017F to \<^verbatim>\<open>s\<close>, U+212A to \<^verbatim>\<open>k\<close>).
\<close>

definition lower :: "char \<Rightarrow> char" where
  "lower c = (if between 0x41 c 0x5A then char_of (of_char c + (0x20 :: nat)) else c)"

fun foldName :: "string \<Rightarrow> string" where
  "foldName [] = []"
| "foldName (a # cs) =
    (if map of_char (a # take 1 cs) = [0xC5, 0xBF :: nat] then CHR ''s'' # foldName (drop 1 cs)
     else if map of_char (a # take 2 cs) = [0xE2, 0x84, 0xAA :: nat] then CHR ''k'' # foldName (drop 2 cs)
     else lower a # foldName cs)"

definition json_kind :: "json \<Rightarrow> string" where
  "json_kind v =
    (case v of
       JNull \<Rightarrow> ''null''
     | JBool _ \<Rightarrow> ''bool''
     | JInt _ \<Rightarrow> ''number''
     | JFrac _ \<Rightarrow> ''number''
     | JStr _ \<Rightarrow> ''string''
     | JArr _ \<Rightarrow> ''array''
     | JObj _ \<Rightarrow> ''object'')"

definition field_error :: "string \<Rightarrow> string \<Rightarrow> string \<Rightarrow> string" where
  "field_error what field ty =
     ''json: cannot unmarshal '' @ what @ '' into Go struct field User.'' @ field @
     '' of type '' @ ty"

definition store_int :: "json \<Rightarrow> string + int option" where
  "store_int v =
    (case v of
       JNull \<Rightarrow> Inr None
     | JInt n \<Rightarrow>
        if - (2 ^ 63) \<le> n \<and> n < 2 ^ 63 then Inr (Some n)
        else Inl (field_error (''number '' @ Itoa n) ''id'' ''int'')
     | JFrac s \<Rightarrow> Inl (field_error (''number '' @ s) ''id'' ''int'')
     | _ \<Rightarrow> Inl (field_error (json_kind v) ''id'' ''int''))"

definition store_string :: "string \<Rightarrow> json \<Rightarrow> string + string option" where
  "store_string field v =
    (case v of
       JNull \<Rightarrow> Inr None
     | JStr s \<Rightarrow> Inr (Some s)
     | _ \<Rightarrow> Inl (field_error (json_kind v) field ''string''))"

text \<open>
  One member of the object: a \<^verbatim>\<open>null\<close> leaves the field as it is, a value of the
  field's type is stored, any other value is the decoder's type error; a key that names no
  field is skipped.
\<close>

definition decode_member :: "User \<Rightarrow> string \<times> json \<Rightarrow> string + User" where
  "decode_member u kv =
    (let f = foldName (fst kv); v = snd kv in
     if f = ''id'' then
       (case store_int v of
          Inl e \<Rightarrow> Inl e
        | Inr None \<Rightarrow> Inr u
        | Inr (Some n) \<Rightarrow> Inr (u\<lparr>ID := n\<rparr>))
     else if f = ''username'' then
       (case store_string ''username'' v of
          Inl e \<Rightarrow> Inl e
        | Inr None \<Rightarrow> Inr u
        | Inr (Some s) \<Rightarrow> Inr (u\<lparr>Username := s\<rparr>))
     else if f = ''email'' then
       (case store_string ''email'' v of
          Inl e \<Rightarrow> Inl e
        | Inr None \<Rightarrow> Inr u
        | Inr (Some s) \<Rightarrow> Inr (u\<lparr>Email := s\<rparr>))
     else Inr u)"

fun decode_members :: "User \<Rightarrow> (string \<times> json) list \<Rightarrow> string + User" where
  "decode_members u [] = Inr u"
| "decode_members u (kv # kvs) =
    (case decode_member u kv of
       Inl e \<Rightarrow> Inl e
     | Inr u' \<Rightarrow> decode_members u' kvs)"

text \<open>
  \<^verbatim>\<open>var user User; err := json.NewDecoder(r.Body).Decode(&user)\<close>: the error, or the
  user the decoder filled, starting from the zero value. Only a JSON object or \<^verbatim>\<open>null\<close>
  decodes into a struct.
\<close>

definition Decode :: "string + json \<Rightarrow> string + User" where
  "Decode b =
    (case b of
       Inl e \<Rightarrow> Inl e
     | Inr JNull \<Rightarrow> Inr zero_User
     | Inr (JObj kvs) \<Rightarrow> decode_members zero_User kvs
     | Inr v \<Rightarrow> Inl (''json: cannot unmarshal '' @ json_kind v @ '' into Go value of type main.User''))"

subsection \<open>net/http: the request and the response\<close>

text \<open>
  Of a request the handlers read the URL's query parameters (in the order they are written)
  and the body. Of the response they set the status, the Content-Type header and the body;
  \<open>content_type = None\<close> is a response whose handler set no Content-Type.
\<close>

record Request =
  URL_Query :: "(string \<times> string) list"
  Body :: "string + json"

record response =
  status :: nat
  content_type :: "string option"
  body :: string

definition StatusOK :: nat where "StatusOK = 200"
definition StatusCreated :: nat where "StatusCreated = 201"
definition StatusBadRequest :: nat where "StatusBadRequest = 400"
definition StatusNotFound :: nat where "StatusNotFound = 404"
definition StatusInternalServerError :: nat where "StatusInternalServerError = 500"

text \<open>\<^verbatim>\<open>r.URL.Query().Get(key)\<close>: the first value of the key, the empty string without one.\<close>

definition Query_Get :: "Request \<Rightarrow> string \<Rightarrow> string" where
  "Query_Get r k = (case map_of (URL_Query r) k of None \<Rightarrow> [] | Some v \<Rightarrow> v)"

text \<open>\<^verbatim>\<open>r.URL.Query()[key]\<close>: every value of the key, in order.\<close>

definition Query_values :: "Request \<Rightarrow> string \<Rightarrow> string list" where
  "Query_values r k = map snd (filter (\<lambda>kv. fst kv = k) (URL_Query r))"

text \<open>\<^verbatim>\<open>http.Error(w, msg, code)\<close>: a plain-text response, the message and a newline.\<close>

definition http_Error :: "string \<Rightarrow> nat \<Rightarrow> response" where
  "http_Error msg code =
     \<lparr>status = code, content_type = Some ''text/plain; charset=utf-8'', body = msg @ [CHR 0x0A]\<rparr>"

text \<open>\<^verbatim>\<open>w.WriteHeader(code)\<close> and nothing else.\<close>

definition WriteHeader :: "nat \<Rightarrow> response" where
  "WriteHeader code = \<lparr>status = code, content_type = None, body = []\<rparr>"

text \<open>The first \<^verbatim>\<open>w.Write\<close> of a handler that wrote no header sends status 200.\<close>

definition Write_json :: "string \<Rightarrow> response" where
  "Write_json payload =
     \<lparr>status = StatusOK, content_type = Some ''application/json'', body = payload\<rparr>"

definition Write_text :: "string \<Rightarrow> response" where
  "Write_text s = \<lparr>status = StatusOK, content_type = None, body = s\<rparr>"

section \<open>The store and the cache\<close>

subsection \<open>State\<close>

text \<open>
  The MySQL table \<^verbatim>\<open>users\<close>: its rows in the order the server iterates them, the next
  \<^verbatim>\<open>AUTO_INCREMENT\<close> value, and the collation the server compares \<^verbatim>\<open>username\<close> with in a
  \<^verbatim>\<open>WHERE\<close> clause (a setting of the server, which no handler changes).
\<close>

record database =
  table_rows :: "User list"
  auto_increment :: int
  collation :: "string \<Rightarrow> string \<Rightarrow> bool"

text \<open>
  A Redis key holds a string, a list or a hash, and may carry the instant at which it
  expires. Durations and instants are nanoseconds, as \<^verbatim>\<open>time.Duration\<close>.
\<close>

datatype rvalue =
    RString string
  | RList "string list"
  | RHash "string \<rightharpoonup> string"

record entry =
  content :: rvalue
  expires :: "nat option"

definition Second :: nat where "Second = 1000000000"
definition Minute :: nat where "Minute = 60 * Second"

text \<open>
  The calls the handlers make on the two clients, recorded in order in \<open>calls\<close>; the
  statements of \<^verbatim>\<open>db.Exec\<close> are the three the handlers send, with their arguments in the
  order of the source.
\<close>

datatype statement =
    INSERT string string
  | UPDATE string string
  | DELETE string

datatype call =
    DB_Query
  | DB_Exec statement
  | Rdb_Get string
  | Rdb_Set string string nat
  | Rdb_RPush string "string list"
  | Rdb_LRange string
  | Rdb_HSet string string string
  | Rdb_HGet string string

text \<open>
  The process state the handlers share: the globals \<^verbatim>\<open>db\<close> and \<^verbatim>\<open>rdb\<close> (the state of
  the servers behind them), the clock, the calls made so far and the lines written with
  \<^verbatim>\<open>log.Println\<close>. A handler does not advance the clock; \<open>advance\<close> lets time pass between
  two requests.
\<close>

record world =
  db :: database
  rdb :: "string \<rightharpoonup> entry"
  now :: nat
  calls :: "call list"
  logs :: "string list"

definition advance :: "nat \<Rightarrow> world \<Rightarrow> world" where
  "advance d w = w\<lparr>now := now w + d\<rparr>"

definition called :: "call \<Rightarrow> world \<Rightarrow> world" where
  "called c w = w\<lparr>calls := calls w @ [c]\<rparr>"

text \<open>
  What the environment does to one request: for each fallible step, the error it returns
  there, or \<open>None\<close> when the step goes through. A handler runs each step at most
  once, the steps of the row loop once for each row (numbered from 0). The error stands for
  any reason the server or the library has to fail the call.
\<close>

datatype step =
    Get_step
  | Set_step
  | RPush_step
  | LRange_step
  | HSet_step
  | HGet_step
  | Query_step
  | Exec_step
  | Next_step nat
  | Scan_step nat
  | Marshal_step

type_synonym faults = "step \<Rightarrow> string option"

definition no_faults :: faults where
  "no_faults = (\<lambda>s. None)"

subsection \<open>database/sql\<close>

text \<open>\<^verbatim>\<open>db.Query("SELECT id, username, email FROM users;")\<close>: the error, or the rows.\<close>

definition db_Query :: "faults \<Rightarrow> world \<Rightarrow> (string + User list) \<times> world" where
  "db_Query flt w =
    (case flt Query_step of
       Some e \<Rightarrow> (Inl e, called DB_Query w)
     | None \<Rightarrow> (Inr (table_rows (db w)), called DB_Query w))"

text \<open>
  The three statements: \<^verbatim>\<open>INSERT INTO users (username, email) VALUES (?, ?)\<close> adds a row
  with the next id; \<^verbatim>\<open>UPDATE users SET email = ? WHERE username = ?\<close> and
  \<^verbatim>\<open>DELETE FROM users WHERE username = ?\<close> work on every row whose username the collation
  takes for the argument, and succeed when there is none.
\<close>

definition execute :: "statement \<Rightarrow> database \<Rightarrow> database" where
  "execute st d =
    (case st of
       INSERT username email \<Rightarrow>
         d\<lparr>table_rows := table_rows d @ [\<lparr>ID = auto_increment d, Username = username, Email = email\<rparr>],
           auto_increment := auto_increment d + 1\<rparr>
     | UPDATE email username \<Rightarrow>
         d\<lparr>table_rows := map (\<lambda>r. if collation d (Username r) username then r\<lparr>Email := email\<rparr> else r)
                              (table_rows d)\<rparr>
     | DELETE username \<Rightarrow>
         d\<lparr>table_rows := filter (\<lambda>r. \<not> collation d (Username r) username) (table_rows d)\<rparr>)"

definition db_Exec :: "faults \<Rightarrow> statement \<Rightarrow> world \<Rightarrow> string option \<times> world" where
  "db_Exec flt st w =
    (case flt Exec_step of
       Some e \<Rightarrow> (Some e, called (DB_Exec st) w)
     | None \<Rightarrow> (None, called (DB_Exec st) (w\<lparr>db := execute st (db w)\<rparr>)))"

text \<open>
  The row loop of \<open>getUsers\<close> and \<open>updateCache\<close>:
  \<^verbatim>\<open>for rows.Next() { var user User; err := rows.Scan(...); if err != nil {...; return}; users = append(users, user) }\<close>.
  \<^verbatim>\<open>rows.Next()\<close> is false after the last row and also when fetching the next row fails;
  the source never reads \<^verbatim>\<open>rows.Err()\<close>, so the loop then ends with the rows it has.
  The result is the error of a failed \<^verbatim>\<open>Scan\<close>, or the slice \<open>users\<close>.
\<close>

fun scan_rows :: "faults \<Rightarrow> nat \<Rightarrow> User list \<Rightarrow> User list \<Rightarrow> string + User list" where
  "scan_rows flt i [] users = Inr users"
| "scan_rows flt i (r # rs) users =
    (case flt (Next_step i) of
       Some e \<Rightarrow> Inr users
     | None \<Rightarrow>
        (case flt (Scan_step i) of
           Some e \<Rightarrow> Inl e
         | None \<Rightarrow> scan_rows flt (Suc i) rs (users @ [r])))"

text \<open>\<^verbatim>\<open>json.Marshal(users)\<close>.\<close>

definition Marshal :: "faults \<Rightarrow> User list \<Rightarrow> string + string" where
  "Marshal flt users =
    (case flt Marshal_step of
       Some e \<Rightarrow> Inl e
     | None \<Rightarrow> Inr (encode_users users))"

subsection \<open>go-redis\<close>

text \<open>A key whose expiry has passed is gone.\<close>

definition live :: "world \<Rightarrow> string \<Rightarrow> entry option" where
  "live w k =
    (case rdb w k of
       None \<Rightarrow> None
     | Some e \<Rightarrow>
        (case expires e of
           None \<Rightarrow> Some e
         | Some t \<Rightarrow> if now w < t then Some e else None))"

definition redis_Nil :: string where
  "redis_Nil = ''redis: nil''"

definition WRONGTYPE :: string where
  "WRONGTYPE = ''WRONGTYPE Operation against a key holding the wrong kind of value''"

text \<open>\<^verbatim>\<open>rdb.Get(ctx, key).Result()\<close>: the string at the key, \<^verbatim>\<open>redis.Nil\<close> without one.\<close>

definition rdb_Get :: "faults \<Rightarrow> string \<Rightarrow> world \<Rightarrow> (string + string) \<times> world" where
  "rdb_Get flt k w =
    (case flt Get_step of
       Some e \<Rightarrow> (Inl e, called (Rdb_Get k) w)
     | None \<Rightarrow>
        (case live w k of
           None \<Rightarrow> (Inl redis_Nil, called (Rdb_Get k) w)
         | Some e \<Rightarrow>
            (case content e of
               RString s \<Rightarrow> (Inr s, called (Rdb_Get k) w)
             | _ \<Rightarrow> (Inl WRONGTYPE, called (Rdb_Get k) w))))"

text \<open>
  \<^verbatim>\<open>rdb.Set(ctx, key, value, expiration).Err()\<close>: the key holds the string, whatever it
  held; expiration 0 is a key that does not expire.
\<close>

definition rdb_Set :: "faults \<Rightarrow> string \<Rightarrow> string \<Rightarrow> nat \<Rightarrow> world \<Rightarrow> string option \<times> world" where
  "rdb_Set flt k v expiration w =
    (case flt Set_step of
       Some e \<Rightarrow> (Some e, called (Rdb_Set k v expiration) w)
     | None \<Rightarrow>
        (None, called (Rdb_Set k v expiration)
           (w\<lparr>rdb := (rdb w)(k \<mapsto>
                 \<lparr>content = RString v,
                  expires = (if expiration = 0 then None else Some (now w + expiration))\<rparr>)\<rparr>)))"

text \<open>\<^verbatim>\<open>rdb.RPush(ctx, key, values).Err()\<close>: appends to the list at the key, a new one without it.\<close>

definition rdb_RPush :: "faults \<Rightarrow> string \<Rightarrow> string list \<Rightarrow> world \<Rightarrow> string option \<times> world" where
  "rdb_RPush flt k vs w =
    (case flt RPush_step of
       Some e \<Rightarrow> (Some e, called (Rdb_RPush k vs) w)
     | None \<Rightarrow>
        (case live w k of
           None \<Rightarrow>
             (None, called (Rdb_RPush k vs)
                (w\<lparr>rdb := (rdb w)(k \<mapsto> \<lparr>content = RList vs, expires = None\<rparr>)\<rparr>))
         | Some e \<Rightarrow>
            (case content e of
               RList xs \<Rightarrow>
                 (None, called (Rdb_RPush k vs)
                    (w\<lparr>rdb := (rdb w)(k \<mapsto> e\<lparr>content := RList (xs @ vs)\<rparr>)\<rparr>))
             | _ \<Rightarrow> (Some WRONGTYPE, called (Rdb_RPush k vs) w))))"

text \<open>\<^verbatim>\<open>rdb.LRange(ctx, key, 0, -1).Result()\<close>: the whole list, empty without the key.\<close>

definition rdb_LRange :: "faults \<Rightarrow> string \<Rightarrow> world \<Rightarrow> (string + string list) \<times> world" where
  "rdb_LRange flt k w =
    (case flt LRange_step of
       Some e \<Rightarrow> (Inl e, called (Rdb_LRange k) w)
     | None \<Rightarrow>
        (case live w k of
           None \<Rightarrow> (Inr [], called (Rdb_LRange k) w)
         | Some e \<Rightarrow>
            (case content e of
               RList xs \<Rightarrow> (Inr xs, called (Rdb_LRange k) w)
             | _ \<Rightarrow> (Inl WRONGTYPE, called (Rdb_LRange k) w))))"

text \<open>\<^verbatim>\<open>rdb.HSet(ctx, key, field, value).Err()\<close>: sets the field of the hash at the key.\<close>

definition rdb_HSet :: "faults \<Rightarrow> string \<Rightarrow> string \<Rightarrow> string \<Rightarrow> world \<Rightarrow> string option \<times> world" where
  "rdb_HSet flt k f v w =
    (case flt HSet_step of
       Some e \<Rightarrow> (Some e, called (Rdb_HSet k f v) w)
     | None \<Rightarrow>
        (case live w k of
           None \<Rightarrow>
             (None, called (Rdb_HSet k f v)
                (w\<lparr>rdb := (rdb w)(k \<mapsto> \<lparr>content = RHash [f \<mapsto> v], expires = None\<rparr>)\<rparr>))
         | Some e \<Rightarrow>
            (case content e of
               RHash h \<Rightarrow>
                 (None, called (Rdb_HSet k f v)
                    (w\<lparr>rdb := (rdb w)(k \<mapsto> e\<lparr>content := RHash (h(f \<mapsto> v))\<rparr>)\<rparr>))
             | _ \<Rightarrow> (Some WRONGTYPE, called (Rdb_HSet k f v) w))))"

text \<open>\<^verbatim>\<open>rdb.HGet(ctx, key, field).Result()\<close>: the field's value, \<^verbatim>\<open>redis.Nil\<close> without one.\<close>

definition rdb_HGet :: "faults \<Rightarrow> string \<Rightarrow> string \<Rightarrow> world \<Rightarrow> (string + string) \<times> world" where
  "rdb_HGet flt k f w =
    (case flt HGet_step of
       Some e \<Rightarrow> (Inl e, called (Rdb_HGet k f) w)
     | None \<Rightarrow>
        (case live w k of
           None \<Rightarrow> (Inl redis_Nil, called (Rdb_HGet k f) w)
         | Some e \<Rightarrow>
            (case content e of
               RHash h \<Rightarrow>
                 (case h f of
                    None \<Rightarrow> (Inl redis_Nil, called (Rdb_HGet k f) w)
                  | Some v \<Rightarrow> (Inr v, called (Rdb_HGet k f) w))
             | _ \<Rightarrow> (Inl WRONGTYPE, called (Rdb_HGet k f) w))))"

text \<open>\<^verbatim>\<open>log.Println(msg, err)\<close>: one line, the operands separated by a space.\<close>

definition log_Println :: "string \<Rightarrow> string \<Rightarrow> world \<Rightarrow> world" where
  "log_Println msg err w = w\<lparr>logs := logs w @ [msg @ '' '' @ err]\<rparr>"

section \<open>The handlers\<close>

type_synonym handler = "faults \<Rightarrow> Request \<Rightarrow> world \<Rightarrow> response \<times> world"

subsection \<open>The user collection behind the cache\<close>

text \<open>
  \<open>getUsers\<close>: the cached payload when \<^verbatim>\<open>rdb.Get(ctx, "users")\<close> returns no error;
  otherwise the rows of the table, marshalled, stored under \<^verbatim>\<open>users\<close> for two minutes and
  written to the response. Every error on that second path is a 500.
\<close>

definition getUsers :: handler where
  "getUsers flt r w =
    (case rdb_Get flt ''users'' w of
       (Inr usersJSON, w1) \<Rightarrow> (Write_json usersJSON, w1)
     | (Inl _, w1) \<Rightarrow>
        (case db_Query flt w1 of
           (Inl err, w2) \<Rightarrow> (http_Error err StatusInternalServerError, w2)
         | (Inr rs, w2) \<Rightarrow>
            (case scan_rows flt 0 rs [] of
               Inl err \<Rightarrow> (http_Error err StatusInternalServerError, w2)
             | Inr users \<Rightarrow>
                (case Marshal flt users of
                   Inl err \<Rightarrow> (http_Error err StatusInternalServerError, w2)
                 | Inr usersJSONRes \<Rightarrow>
                    (case rdb_Set flt ''users'' usersJSONRes (2 * Minute) w2 of
                       (Some err, w3) \<Rightarrow> (http_Error err StatusInternalServerError, w3)
                     | (None, w3) \<Rightarrow> (Write_json usersJSONRes, w3))))))"

text \<open>
  \<open>updateCache\<close> returns nothing: it reads the table, marshals the rows and stores them
  under \<^verbatim>\<open>users\<close> for five minutes; on an error it writes a log line and returns.
\<close>

definition updateCache :: "faults \<Rightarrow> world \<Rightarrow> world" where
  "updateCache flt w =
    (case db_Query flt w of
       (Inl err, w1) \<Rightarrow> log_Println ''Failed to query MySQL:'' err w1
     | (Inr rs, w1) \<Rightarrow>
        (case scan_rows flt 0 rs [] of
           Inl err \<Rightarrow> log_Println ''Failed to scan row:'' err w1
         | Inr users \<Rightarrow>
            (case Marshal flt users of
               Inl err \<Rightarrow> log_Println ''Failed to marshal JSON:'' err w1
             | Inr usersJSON \<Rightarrow>
                (case rdb_Set flt ''users'' usersJSON (5 * Minute) w1 of
                   (Some err, w2) \<Rightarrow> log_Println ''Failed to update Redis cache:'' err w2
                 | (None, w2) \<Rightarrow> w2))))"

definition createUser :: handler where
  "createUser flt r w =
    (case Decode (Body r) of
       Inl err \<Rightarrow> (http_Error err StatusBadRequest, w)
     | Inr user \<Rightarrow>
        (case db_Exec flt (INSERT (Username user) (Email user)) w of
           (Some err, w1) \<Rightarrow> (http_Error err StatusInternalServerError, w1)
         | (None, w1) \<Rightarrow> (WriteHeader StatusCreated, updateCache flt w1)))"

definition updateUser :: handler where
  "updateUser flt r w =
    (case Decode (Body r) of
       Inl err \<Rightarrow> (http_Error err StatusBadRequest, w)
     | Inr user \<Rightarrow>
        (case db_Exec flt (UPDATE (Email user) (Username user)) w of
           (Some err, w1) \<Rightarrow> (http_Error err StatusInternalServerError, w1)
         | (None, w1) \<Rightarrow> (WriteHeader StatusOK, updateCache flt w1)))"

definition deleteUser :: handler where
  "deleteUser flt r w =
    (let username = Query_Get r ''username'' in
     if username = [] then (http_Error ''Missing username parameter'' StatusBadRequest, w)
     else
       (case db_Exec flt (DELETE username) w of
          (Some err, w1) \<Rightarrow> (http_Error err StatusInternalServerError, w1)
        | (None, w1) \<Rightarrow> (WriteHeader StatusOK, updateCache flt w1)))"

subsection \<open>The generic key/value routes\<close>

definition setString :: handler where
  "setString flt r w =
    (let key = Query_Get r ''key''; val = Query_Get r ''value'' in
     if key = [] \<or> val = [] then
       (http_Error ''Missing key or value parameters'' StatusBadRequest, w)
     else
       (case rdb_Set flt key val 0 w of
          (Some err, w1) \<Rightarrow> (http_Error err StatusInternalServerError, w1)
        | (None, w1) \<Rightarrow> (WriteHeader StatusOK, w1)))"

definition getString :: handler where
  "getString flt r w =
    (let key = Query_Get r ''key'' in
     if key = [] then (http_Error ''Missing key parameter'' StatusBadRequest, w)
     else
       (case rdb_Get flt key w of
          (Inl err, w1) \<Rightarrow> (http_Error err StatusInternalServerError, w1)
        | (Inr val, w1) \<Rightarrow>
            (Write_text (''Value for key '' @ key @ '': '' @ val @ [CHR 0x0A]), w1)))"

definition setList :: handler where
  "setList flt r w =
    (let key = Query_Get r ''key''; vals = Query_values r ''value'' in
     if key = [] \<or> length vals = 0 then
       (http_Error ''Missing key or value parameters'' StatusBadRequest, w)
     else
       (case rdb_RPush flt key vals w of
          (Some err, w1) \<Rightarrow> (http_Error err StatusInternalServerError, w1)
        | (None, w1) \<Rightarrow> (WriteHeader StatusOK, w1)))"

text \<open>\<^verbatim>\<open>%v\<close> prints a slice of strings between brackets, separated by spaces.\<close>

definition getList :: handler where
  "getList flt r w =
    (let key = Query_Get r ''key'' in
     if key = [] then (http_Error ''Missing key parameter'' StatusBadRequest, w)
     else
       (case rdb_LRange flt key w of
          (Inl err, w1) \<Rightarrow> (http_Error err StatusInternalServerError, w1)
        | (Inr vals, w1) \<Rightarrow>
            (Write_text (''Values for key '' @ key @ '': ['' @ join '' '' vals @ '']'' @ [CHR 0x0A]), w1)))"

definition setHash :: handler where
  "setHash flt r w =
    (let key = Query_Get r ''key''; field = Query_Get r ''field''; val = Query_Get r ''value'' in
     if key = [] \<or> field = [] \<or> val = [] then
       (http_Error ''Missing key, field, or value parameters'' StatusBadRequest, w)
     else
       (case rdb_HSet flt key field val w of
          (Some err, w1) \<Rightarrow> (http_Error err StatusInternalServerError, w1)
        | (None, w1) \<Rightarrow> (WriteHeader StatusOK, w1)))"

definition getHash :: handler where
  "getHash flt r w =
    (let key = Query_Get r ''key''; field = Query_Get r ''field'' in
     if key = [] \<or> field = [] then
       (http_Error ''Missing key or field parameter'' StatusBadRequest, w)
     else
       (case rdb_HGet flt key field w of
          (Inl err, w1) \<Rightarrow> (http_Error err StatusInternalServerError, w1)
        | (Inr val, w1) \<Rightarrow>
            (Write_text (''Value for field '' @ field @ '' in key '' @ key @ '': '' @ val @ [CHR 0x0A]), w1)))"

subsection \<open>The routes\<close>

text \<open>
  The patterns \<open>main\<close> registers on the default mux. None ends in a slash, so each
  matches its own path only; any other path is the mux's 404.
\<close>

definition routes :: "(string \<times> handler) list" where
  "routes =
    [(''/users'', getUsers),
     (''/user'', createUser),
     (''/user/update'', updateUser),
     (''/user/delete'', deleteUser),
     (''/set-string'', setString),
     (''/get-string'', getString),
     (''/set-list'', setList),
     (''/get-list'', getList),
     (''/set-hash'', setHash),
     (''/get-hash'', getHash)]"

definition serve :: "string \<Rightarrow> handler" where
  "serve path flt r w =
    (case map_of routes path of
       Some h \<Rightarrow> h flt r w
     | None \<Rightarrow> (http_Error ''404 page not found'' StatusNotFound, w))"

subsection \<open>The service without the cache\<close>

text \<open>
  \<^verbatim>\<open>main.go\<close>: the same four user routes over the table alone. Its \<open>getUsers\<close> sets the
  Content-Type and lets \<^verbatim>\<open>json.NewEncoder(w).Encode(users)\<close> write the marshalled slice
  and a newline; it drops the encoder's error, and nothing is written then.
\<close>

definition getUsers_nocache :: handler where
  "getUsers_nocache flt r w =
    (case db_Query flt w of
       (Inl err, w1) \<Rightarrow> (http_Error err StatusInternalServerError, w1)
     | (Inr rs, w1) \<Rightarrow>
        (case scan_rows flt 0 rs [] of
           Inl err \<Rightarrow> (http_Error err StatusInternalServerError, w1)
         | Inr users \<Rightarrow>
            (case Marshal flt users of
               Inl err \<Rightarrow> (Write_json [], w1)
             | Inr usersJSON \<Rightarrow> (Write_json (usersJSON @ [CHR 0x0A]), w1))))"

definition createUser_nocache :: handler where
  "createUser_nocache flt r w =
    (case Decode (Body r) of
       Inl err \<Rightarrow> (http_Error err StatusBadRequest, w)
     | Inr user \<Rightarrow>
        (case db_Exec flt (INSERT (Username user) (Email user)) w of
           (Some err, w1) \<Rightarrow> (http_Error err StatusInternalServerError, w1)
         | (None, w1) \<Rightarrow> (WriteHeader StatusCreated, w1)))"

definition updateUser_nocache :: handler where
  "updateUser_nocache flt r w =
    (case Decode (Body r) of
       Inl err \<Rightarrow> (http_Error err StatusBadRequest, w)
     | Inr user \<Rightarrow>
        (case db_Exec flt (UPDATE (Email user) (Username user)) w of
           (Some err, w1) \<Rightarrow> (http_Error err StatusInternalServerError, w1)
         | (None, w1) \<Rightarrow> (WriteHeader StatusOK, w1)))"

definition deleteUser_nocache :: handler where
  "deleteUser_nocache flt r w =
    (let username = Query_Get r ''username'' in
     if username = [] then (http_Error ''Missing username parameter'' StatusBadRequest, w)
     else
       (case db_Exec flt (DELETE username) w of
          (Some err, w1) \<Rightarrow> (http_Error err StatusInternalServerError, w1)
        | (None, w1) \<Rightarrow> (WriteHeader StatusOK, w1)))"

section \<open>Runs and scenarios\<close>

text \<open>
  The row loop of a request goes through: no \<^verbatim>\<open>rows.Next()\<close> and no \<^verbatim>\<open>rows.Scan\<close>
  fails.
\<close>

definition rows_ok :: "faults \<Rightarrow> bool" where
  "rows_ok flt = (\<forall>i. flt (Next_step i) = None \<and> flt (Scan_step i) = None)"

text \<open>
  The scenarios the theorems are run on: the service right after \<open>main\<close> has created the
  table on a server with no data and an empty cache; the same after a first
  \<^verbatim>\<open>GET /users\<close>; the requests of the specification's example; an environment in which
  one step fails.
\<close>

definition empty_world :: world where
  "empty_world =
     \<lparr>db = \<lparr>table_rows = [], auto_increment = 1, collation = (=)\<rparr>,
      rdb = Map.empty, now = 0, calls = [], logs = []\<rparr>"

definition req_list :: Request where
  "req_list = \<lparr>URL_Query = [], Body = Inl ''EOF''\<rparr>"

definition req_ann :: Request where
  "req_ann =
     \<lparr>URL_Query = [],
      Body = Inr (JObj [(''username'', JStr ''ann''), (''email'', JStr ''a@x.com'')])\<rparr>"

definition req_delete_ann :: Request where
  "req_delete_ann = \<lparr>URL_Query = [(''username'', ''ann'')], Body = Inl ''EOF''\<rparr>"

definition req_no_username :: Request where
  "req_no_username = \<lparr>URL_Query = [], Body = Inr (JObj [(''email'', JStr ''a@x.com'')])\<rparr>"

definition req_set_users :: Request where
  "req_set_users = \<lparr>URL_Query = [(''key'', ''users''), (''value'', ''hello'')], Body = Inl ''EOF''\<rparr>"

definition req_set_greeting :: Request where
  "req_set_greeting = \<lparr>URL_Query = [(''key'', ''greeting''), (''value'', ''hello'')], Body = Inl ''EOF''\<rparr>"

definition failing :: "step \<Rightarrow> faults" where
  "failing s = (\<lambda>x. if x = s then Some ''connection refused'' else None)"

definition ann :: User where
  "ann = \<lparr>ID = 1, Username = ''ann'', Email = ''a@x.com''\<rparr>"

definition warm_world :: world where
  "warm_world = snd (getUsers no_faults req_list empty_world)"

section \<open>Properties\<close>

subsection \<open>Evaluation\<close>

lemmas handler_defs =
  getUsers_def updateCache_def createUser_def updateUser_def deleteUser_def
  setString_def getString_def setList_def getList_def setHash_def getHash_def
  getUsers_nocache_def createUser_nocache_def updateUser_nocache_def deleteUser_nocache_def

lemmas adapter_defs =
  db_Query_def db_Exec_def execute_def Marshal_def rdb_Get_def rdb_Set_def rdb_RPush_def
  rdb_LRange_def rdb_HSet_def rdb_HGet_def live_def log_Println_def called_def
  Query_Get_def Query_values_def

lemmas response_defs =
  http_Error_def WriteHeader_def Write_json_def Write_text_def StatusOK_def StatusCreated_def
  StatusBadRequest_def StatusNotFound_def StatusInternalServerError_def

lemmas scenario_defs =
  empty_world_def req_list_def req_delete_ann_def req_set_users_def req_set_greeting_def
  failing_def no_faults_def ann_def Minute_def Second_def redis_Nil_def

lemma Decode_ann:
  "Decode (Body req_ann) = Inr \<lparr>ID = 0, Username = ''ann'', Email = ''a@x.com''\<rparr>"
  by (simp add: req_ann_def Decode_def decode_member_def store_string_def zero_User_def
      lower_def between_def)

lemma Decode_no_username:
  "Decode (Body req_no_username) = Inr \<lparr>ID = 0, Username = [], Email = ''a@x.com''\<rparr>"
  by (simp add: req_no_username_def Decode_def decode_member_def store_string_def zero_User_def
      lower_def between_def)

lemma encode_ann: \<open>encode_users [ann] = ''[{"id":1,"username":"ann","email":"a@x.com"}]''\<close>
  by code_simp

lemma rows_ok_no_faults: "rows_ok no_faults"
  by (simp add: rows_ok_def no_faults_def)

lemma warm_world_eq:
  "warm_world =
     \<lparr>db = \<lparr>table_rows = [], auto_increment = 1, collation = (=)\<rparr>,
      rdb = [''users'' \<mapsto> \<lparr>content = RString ''null'', expires = Some 120000000000\<rparr>],
      now = 0,
      calls = [Rdb_Get ''users'', DB_Query, Rdb_Set ''users'' ''null'' 120000000000],
      logs = []\<rparr>"
  by (simp add: warm_world_def handler_defs adapter_defs response_defs scenario_defs
      encode_users_def)

subsection \<open>The adapters and the steps of the handlers\<close>

lemma called_simps [simp]:
  "db (called c w) = db w" "rdb (called c w) = rdb w" "now (called c w) = now w"
  "logs (called c w) = logs w" "calls (called c w) = calls w @ [c]"
  by (simp_all add: called_def)

lemma log_Println_simps [simp]:
  "db (log_Println m e w) = db w" "rdb (log_Println m e w) = rdb w"
  "now (log_Println m e w) = now w" "calls (log_Println m e w) = calls w"
  "logs (log_Println m e w) = logs w @ [m @ '' '' @ e]"
  by (simp_all add: log_Println_def)

lemma Minute_pos: "0 < Minute"
  by (simp add: Minute_def Second_def)

lemma scan_rows_all: "rows_ok flt \<Longrightarrow> scan_rows flt i rs users = Inr (users @ rs)"
  by (induction rs arbitrary: i users) (simp_all add: rows_ok_def)

lemma rdb_Get_string:
  "flt Get_step = None \<Longrightarrow> rdb w k = Some \<lparr>content = RString p, expires = Some t\<rparr> \<Longrightarrow>
   now w < t \<Longrightarrow> rdb_Get flt k w = (Inr p, called (Rdb_Get k) w)"
  by (simp add: rdb_Get_def live_def)

lemma probe_hit:
  assumes "fst (rdb_Get flt ''users'' w) = Inr v"
  shows "getUsers flt r w = (Write_json v, called (Rdb_Get ''users'') w)"
  using assms
  by (auto simp: getUsers_def rdb_Get_def split: option.splits rvalue.splits)

lemma probe_miss:
  assumes "fst (rdb_Get flt ''users'' w) = Inl e"
    and "flt Query_step = None" and "rows_ok flt" and "flt Marshal_step = None"
    and "flt Set_step = None"
  shows "getUsers flt r w =
     (Write_json (encode_users (table_rows (db w))),
      called (Rdb_Set ''users'' (encode_users (table_rows (db w))) (2 * Minute))
        ((called DB_Query (called (Rdb_Get ''users'') w))
          \<lparr>rdb := (rdb w)(''users'' \<mapsto> \<lparr>content = RString (encode_users (table_rows (db w))),
                     expires = Some (now w + 2 * Minute)\<rparr>)\<rparr>))"
  using assms Minute_pos
  by (auto simp: getUsers_def rdb_Get_def db_Query_def scan_rows_all Marshal_def rdb_Set_def
      split: option.splits rvalue.splits)

lemma updateCache_db [simp]: "db (updateCache flt w) = db w"
  by (simp add: updateCache_def db_Query_def rdb_Set_def split: option.splits sum.splits)

lemma updateCache_now [simp]: "now (updateCache flt w) = now w"
  by (simp add: updateCache_def db_Query_def rdb_Set_def split: option.splits sum.splits)

lemma updateCache_ok:
  assumes "flt Query_step = None" "rows_ok flt" "flt Marshal_step = None" "flt Set_step = None"
  shows "updateCache flt w =
    called (Rdb_Set ''users'' (encode_users (table_rows (db w))) (5 * Minute))
      ((called DB_Query w)
        \<lparr>rdb := (rdb w)(''users'' \<mapsto> \<lparr>content = RString (encode_users (table_rows (db w))),
                   expires = Some (now w + 5 * Minute)\<rparr>)\<rparr>)"
  using assms Minute_pos
  by (simp add: updateCache_def db_Query_def scan_rows_all Marshal_def rdb_Set_def)

lemma updateCache_query_fails:
  "flt Query_step = Some e \<Longrightarrow>
   updateCache flt w = log_Println ''Failed to query MySQL:'' e (called DB_Query w)"
  by (simp add: updateCache_def db_Query_def)

lemma updateCache_scan_fails:
  "flt Query_step = None \<Longrightarrow> scan_rows flt 0 (table_rows (db w)) [] = Inl e \<Longrightarrow>
   updateCache flt w = log_Println ''Failed to scan row:'' e (called DB_Query w)"
  by (simp add: updateCache_def db_Query_def)

lemma updateCache_marshal_fails:
  "flt Query_step = None \<Longrightarrow> scan_rows flt 0 (table_rows (db w)) [] = Inr us \<Longrightarrow>
   flt Marshal_step = Some e \<Longrightarrow>
   updateCache flt w = log_Println ''Failed to marshal JSON:'' e (called DB_Query w)"
  by (simp add: updateCache_def db_Query_def Marshal_def)

lemma updateCache_set_fails:
  "flt Query_step = None \<Longrightarrow> scan_rows flt 0 (table_rows (db w)) [] = Inr us \<Longrightarrow>
   flt Marshal_step = None \<Longrightarrow> flt Set_step = Some e \<Longrightarrow>
   updateCache flt w =
     log_Println ''Failed to update Redis cache:'' e
       (called (Rdb_Set ''users'' (encode_users us) (5 * Minute)) (called DB_Query w))"
  by (simp add: updateCache_def db_Query_def Marshal_def rdb_Set_def)

lemma createUser_decoded:
  "Decode (Body r) = Inr u \<Longrightarrow>
   createUser flt r w =
     (case flt Exec_step of
        Some e \<Rightarrow>
          (http_Error e StatusInternalServerError,
           called (DB_Exec (INSERT (Username u) (Email u))) w)
      | None \<Rightarrow>
          (WriteHeader StatusCreated,
           updateCache flt (called (DB_Exec (INSERT (Username u) (Email u)))
             (w\<lparr>db := execute (INSERT (Username u) (Email u)) (db w)\<rparr>))))"
  by (simp add: createUser_def db_Exec_def split: option.splits)

lemma updateUser_decoded:
  "Decode (Body r) = Inr u \<Longrightarrow>
   updateUser flt r w =
     (case flt Exec_step of
        Some e \<Rightarrow>
          (http_Error e StatusInternalServerError,
           called (DB_Exec (UPDATE (Email u) (Username u))) w)
      | None \<Rightarrow>
          (WriteHeader StatusOK,
           updateCache flt (called (DB_Exec (UPDATE (Email u) (Username u)))
             (w\<lparr>db := execute (UPDATE (Email u) (Username u)) (db w)\<rparr>))))"
  by (simp add: updateUser_def db_Exec_def split: option.splits)

lemma deleteUser_named:
  "Query_Get r ''username'' \<noteq> [] \<Longrightarrow>
   deleteUser flt r w =
     (case flt Exec_step of
        Some e \<Rightarrow>
          (http_Error e StatusInternalServerError,
           called (DB_Exec (DELETE (Query_Get r ''username''))) w)
      | None \<Rightarrow>
          (WriteHeader StatusOK,
           updateCache flt (called (DB_Exec (DELETE (Query_Get r ''username'')))
             (w\<lparr>db := execute (DELETE (Query_Get r ''username'')) (db w)\<rparr>))))"
  by (simp add: deleteUser_def db_Exec_def Let_def split: option.splits)


lemma refreshed_world:
  assumes "flt Query_step = None" "rows_ok flt" "flt Marshal_step = None" "flt Set_step = None"
    and "flt' Get_step = None"
  shows "rdb (updateCache flt w) =
           (rdb w)(''users'' \<mapsto> \<lparr>content = RString (encode_users (table_rows (db w))),
                               expires = Some (now w + 5 * Minute)\<rparr>)"
    and "calls (updateCache flt w) =
           calls w @ [DB_Query, Rdb_Set ''users'' (encode_users (table_rows (db w))) (5 * Minute)]"
    and "logs (updateCache flt w) = logs w"
    and "fst (getUsers flt' r' (updateCache flt w)) = Write_json (encode_users (table_rows (db w)))"
proof -
  note u = updateCache_ok [OF assms(1-4), of w]
  show "rdb (updateCache flt w) =
           (rdb w)(''users'' \<mapsto> \<lparr>content = RString (encode_users (table_rows (db w))),
                               expires = Some (now w + 5 * Minute)\<rparr>)"
    by (simp add: u)
  show "calls (updateCache flt w) =
           calls w @ [DB_Query, Rdb_Set ''users'' (encode_users (table_rows (db w))) (5 * Minute)]"
    by (simp add: u)
  show "logs (updateCache flt w) = logs w"
    by (simp add: u)
  have "rdb_Get flt' ''users'' (updateCache flt w) =
      (Inr (encode_users (table_rows (db w))), called (Rdb_Get ''users'') (updateCache flt w))"
    by (rule rdb_Get_string [where flt = flt' and t = "now w + 5 * Minute", OF assms(5)])
       (use Minute_pos in \<open>simp_all add: u\<close>)
  then show "fst (getUsers flt' r' (updateCache flt w)) = Write_json (encode_users (table_rows (db w)))"
    by (simp add: probe_hit)
qed

subsection \<open>The read path\<close>

text \<open>
  C3. When the probe \<^verbatim>\<open>rdb.Get(ctx, "users")\<close> returns a payload, \<open>getUsers\<close> answers 200
  with Content-Type \<^verbatim>\<open>application/json\<close> and that payload as the body. The only call it
  makes is the probe: the table is not queried, and the cache (the entry and its expiry
  with it) is what it was.
\<close>

theorem getUsers_hit_verbatim:
  assumes "fst (rdb_Get flt ''users'' w) = Inr v"
  shows "getUsers flt r w =
    (\<lparr>status = 200, content_type = Some ''application/json'', body = v\<rparr>,
     w\<lparr>calls := calls w @ [Rdb_Get ''users'']\<rparr>)"
  using probe_hit [OF assms, of r]
  by (simp add: Write_json_def StatusOK_def called_def)

text \<open>
  On the service that has cached the empty collection: the second \<^verbatim>\<open>GET /users\<close> serves
  the cached payload and leaves the entry's expiry at two minutes after the first.
\<close>

theorem getUsers_hit_verbatim_witness:
  "getUsers no_faults req_list warm_world =
    (\<lparr>status = 200, content_type = Some ''application/json'', body = ''null''\<rparr>,
     warm_world\<lparr>calls := [Rdb_Get ''users'', DB_Query, Rdb_Set ''users'' ''null'' 120000000000,
        Rdb_Get ''users'']\<rparr>)
   \<and> rdb (snd (getUsers no_faults req_list warm_world)) ''users''
       = Some \<lparr>content = RString ''null'', expires = Some 120000000000\<rparr>"
proof -
  have hit: "fst (rdb_Get no_faults ''users'' warm_world) = Inr ''null''"
    by (simp add: warm_world_eq rdb_Get_def live_def no_faults_def)
  show ?thesis
    using getUsers_hit_verbatim [OF hit, of req_list]
    by (simp add: warm_world_eq)
qed

text \<open>
  C6. On the miss path, when the query, the row loop and the marshalling go through and
  \<^verbatim>\<open>rdb.Set\<close> fails with \<open>e\<close>, \<open>getUsers\<close> answers 500 with that error as the body, not
  the rows it has marshalled; the cache is unchanged.
\<close>

theorem getUsers_miss_set_failure:
  assumes "fst (rdb_Get flt ''users'' w) = Inl e0"
    and "flt Query_step = None"
    and "scan_rows flt 0 (table_rows (db w)) [] = Inr users"
    and "flt Marshal_step = None"
    and "flt Set_step = Some e"
  shows "fst (getUsers flt r w) =
           \<lparr>status = 500, content_type = Some ''text/plain; charset=utf-8'', body = e @ [CHR 0x0A]\<rparr>
         \<and> rdb (snd (getUsers flt r w)) = rdb w
         \<and> calls (snd (getUsers flt r w)) =
             calls w @ [Rdb_Get ''users'', DB_Query, Rdb_Set ''users'' (encode_users users) (2 * Minute)]"
  using assms
  by (auto simp: getUsers_def rdb_Get_def db_Query_def Marshal_def rdb_Set_def http_Error_def
      StatusInternalServerError_def split: option.splits rvalue.splits)

text \<open>On the empty service with a cache that refuses the write.\<close>

theorem getUsers_miss_set_failure_witness:
  "fst (getUsers (failing Set_step) req_list empty_world) =
     \<lparr>status = 500, content_type = Some ''text/plain; charset=utf-8'',
      body = ''connection refused'' @ [CHR 0x0A]\<rparr>
   \<and> rdb (snd (getUsers (failing Set_step) req_list empty_world)) ''users'' = None
   \<and> calls (snd (getUsers (failing Set_step) req_list empty_world)) =
       [Rdb_Get ''users'', DB_Query, Rdb_Set ''users'' ''null'' 120000000000]"
proof -
  have miss: "fst (rdb_Get (failing Set_step) ''users'' empty_world) = Inl redis_Nil"
    by (simp add: rdb_Get_def live_def failing_def empty_world_def)
  have q: "failing Set_step Query_step = None" and m: "failing Set_step Marshal_step = None"
    and s: "failing Set_step Set_step = Some ''connection refused''"
    by (simp_all add: failing_def)
  have sc: "scan_rows (failing Set_step) 0 (table_rows (db empty_world)) [] = Inr []"
    by (simp add: empty_world_def)
  show ?thesis
    using getUsers_miss_set_failure [OF miss q sc m s, of req_list]
    by (simp add: empty_world_def encode_users_def Minute_def Second_def)
qed

text \<open>
  C2, as amended. When the probe misses or fails and the query, the row loop, the
  marshalling and \<^verbatim>\<open>rdb.Set\<close> all go through, \<open>getUsers\<close> answers 200 with the rows of the
  table, marshalled, as the body, and that same payload is the entry under \<^verbatim>\<open>users\<close>,
  expiring two minutes from now; the table is untouched and the calls are the probe, the
  query and the write.
\<close>

theorem getUsers_miss_repopulates:
  assumes "fst (rdb_Get flt ''users'' w) = Inl e"
    and "flt Query_step = None" and "rows_ok flt" and "flt Marshal_step = None"
    and "flt Set_step = None"
  shows "fst (getUsers flt r w) =
           \<lparr>status = 200, content_type = Some ''application/json'',
            body = encode_users (table_rows (db w))\<rparr>
         \<and> rdb (snd (getUsers flt r w)) =
             (rdb w)(''users'' \<mapsto> \<lparr>content = RString (encode_users (table_rows (db w))),
                                 expires = Some (now w + 2 * Minute)\<rparr>)
         \<and> db (snd (getUsers flt r w)) = db w
         \<and> calls (snd (getUsers flt r w)) =
             calls w @ [Rdb_Get ''users'', DB_Query,
                        Rdb_Set ''users'' (encode_users (table_rows (db w))) (2 * Minute)]"
  by (simp add: probe_miss [OF assms] Write_json_def StatusOK_def)

text \<open>
  A table that holds ann and an empty cache: the response and the new entry are the array
  with her row.
\<close>

theorem getUsers_miss_repopulates_witness:
  \<open>fst (getUsers no_faults req_list (snd (createUser_nocache no_faults req_ann empty_world))) =
           \<lparr>status = 200, content_type = Some ''application/json'',
            body = ''[{"id":1,"username":"ann","email":"a@x.com"}]''\<rparr>
   \<and> rdb (snd (getUsers no_faults req_list (snd (createUser_nocache no_faults req_ann empty_world))))
        ''users'' =
       Some \<lparr>content = RString ''[{"id":1,"username":"ann","email":"a@x.com"}]'',
             expires = Some 120000000000\<rparr>\<close>
proof -
  let ?w = "snd (createUser_nocache no_faults req_ann empty_world)"
  have w: "?w = \<lparr>db = \<lparr>table_rows = [ann], auto_increment = 2, collation = (=)\<rparr>,
      rdb = Map.empty, now = 0, calls = [DB_Exec (INSERT ''ann'' ''a@x.com'')], logs = []\<rparr>"
    by (simp add: Decode_ann handler_defs adapter_defs response_defs scenario_defs)
  have miss: "fst (rdb_Get no_faults ''users'' ?w) = Inl redis_Nil"
    unfolding w by (simp add: rdb_Get_def live_def no_faults_def)
  have ok: "no_faults Query_step = None" "no_faults Marshal_step = None" "no_faults Set_step = None"
    by (simp_all add: no_faults_def)
  show ?thesis
    using getUsers_miss_repopulates [OF miss ok(1) rows_ok_no_faults ok(2) ok(3), of req_list]
    unfolding w by (simp add: encode_ann Minute_def Second_def)
qed

text \<open>
  C2 as stated fails: a miss alone does not give the payload. On the empty service the
  probe misses, the rows are read and marshalled (to \<^verbatim>\<open>null\<close>), the cache refuses the
  write, and the response is a 500 with the cache's error; nothing is stored.
\<close>

theorem getUsers_miss_may_fail:
  "fst (rdb_Get (failing Set_step) ''users'' empty_world) = Inl redis_Nil
   \<and> fst (getUsers (failing Set_step) req_list empty_world) =
       \<lparr>status = 500, content_type = Some ''text/plain; charset=utf-8'',
        body = ''connection refused'' @ [CHR 0x0A]\<rparr>
   \<and> encode_users (table_rows (db empty_world)) = ''null''
   \<and> rdb (snd (getUsers (failing Set_step) req_list empty_world)) ''users'' = None"
  by (simp add: handler_defs adapter_defs response_defs scenario_defs encode_users_def)

text \<open>
  C8 fails on the code. With no row the slice is never appended to and stays nil, and a
  nil slice marshals to \<^verbatim>\<open>null\<close>: the body of \<^verbatim>\<open>GET /users\<close> on an empty table is
  \<^verbatim>\<open>null\<close>, not \<^verbatim>\<open>[]\<close>, on a fresh service, after the only user has been deleted
  (\<open>updateCache\<close> stores \<^verbatim>\<open>null\<close> and the next read serves it), and in the service
  without the cache.
\<close>

theorem getUsers_empty_is_null:
  "fst (getUsers no_faults req_list empty_world) =
     \<lparr>status = 200, content_type = Some ''application/json'', body = ''null''\<rparr>
   \<and> fst (getUsers no_faults req_list
        (snd (deleteUser no_faults req_delete_ann (snd (createUser no_faults req_ann empty_world))))) =
     \<lparr>status = 200, content_type = Some ''application/json'', body = ''null''\<rparr>
   \<and> table_rows (db (snd (deleteUser no_faults req_delete_ann
        (snd (createUser no_faults req_ann empty_world))))) = []
   \<and> fst (getUsers_nocache no_faults req_list empty_world) =
     \<lparr>status = 200, content_type = Some ''application/json'', body = ''null'' @ [CHR 0x0A]\<rparr>"
  by (simp add: Decode_ann handler_defs adapter_defs response_defs scenario_defs encode_users_def
      Let_def)

subsection \<open>The write paths\<close>

text \<open>
  C7. When \<^verbatim>\<open>db.Exec\<close> fails with \<open>e\<close>, each of \<open>createUser\<close>, \<open>updateUser\<close> and
  \<open>deleteUser\<close> answers 500 with that error, and the state it leaves differs from the
  one it found by the record of that one call: \<open>updateCache\<close> is not run, no call reaches
  the cache, and the cache and the table are as before.
\<close>

theorem store_failure_no_refresh:
  assumes "flt Exec_step = Some e"
  shows
    "(Decode (Body r) = Inr u \<longrightarrow>
        createUser flt r w =
          (\<lparr>status = 500, content_type = Some ''text/plain; charset=utf-8'', body = e @ [CHR 0x0A]\<rparr>,
           w\<lparr>calls := calls w @ [DB_Exec (INSERT (Username u) (Email u))]\<rparr>))
     \<and> (Decode (Body r) = Inr u \<longrightarrow>
        updateUser flt r w =
          (\<lparr>status = 500, content_type = Some ''text/plain; charset=utf-8'', body = e @ [CHR 0x0A]\<rparr>,
           w\<lparr>calls := calls w @ [DB_Exec (UPDATE (Email u) (Username u))]\<rparr>))
     \<and> (Query_Get r ''username'' \<noteq> [] \<longrightarrow>
        deleteUser flt r w =
          (\<lparr>status = 500, content_type = Some ''text/plain; charset=utf-8'', body = e @ [CHR 0x0A]\<rparr>,
           w\<lparr>calls := calls w @ [DB_Exec (DELETE (Query_Get r ''username''))]\<rparr>))"
  using assms
  by (simp add: createUser_decoded updateUser_decoded deleteUser_named http_Error_def
      StatusInternalServerError_def called_def)

text \<open>On the service with the empty collection cached and a store that refuses the statement.\<close>

theorem store_failure_no_refresh_witness:
  "createUser (failing Exec_step) req_ann warm_world =
     (\<lparr>status = 500, content_type = Some ''text/plain; charset=utf-8'',
       body = ''connection refused'' @ [CHR 0x0A]\<rparr>,
      warm_world\<lparr>calls := calls warm_world @ [DB_Exec (INSERT ''ann'' ''a@x.com'')]\<rparr>)
   \<and> updateUser (failing Exec_step) req_ann warm_world =
     (\<lparr>status = 500, content_type = Some ''text/plain; charset=utf-8'',
       body = ''connection refused'' @ [CHR 0x0A]\<rparr>,
      warm_world\<lparr>calls := calls warm_world @ [DB_Exec (UPDATE ''a@x.com'' ''ann'')]\<rparr>)
   \<and> deleteUser (failing Exec_step) req_delete_ann warm_world =
     (\<lparr>status = 500, content_type = Some ''text/plain; charset=utf-8'',
       body = ''connection refused'' @ [CHR 0x0A]\<rparr>,
      warm_world\<lparr>calls := calls warm_world @ [DB_Exec (DELETE ''ann'')]\<rparr>)"
proof -
  have f: "failing Exec_step Exec_step = Some ''connection refused''"
    by (simp add: failing_def)
  have n: "Query_Get req_delete_ann ''username'' = ''ann''"
    by (simp add: Query_Get_def req_delete_ann_def)
  show ?thesis
    using store_failure_no_refresh [where flt = "failing Exec_step" and e = "''connection refused''"
          and r = req_ann and u = "\<lparr>ID = 0, Username = ''ann'', Email = ''a@x.com''\<rparr>"
          and w = warm_world, OF f]
      store_failure_no_refresh [where flt = "failing Exec_step" and e = "''connection refused''"
          and r = req_delete_ann and w = warm_world, OF f]
    by (simp add: Decode_ann n)
qed

text \<open>
  C5, as amended. A create or update request whose body the decoder rejects, and a delete
  request whose \<^verbatim>\<open>username\<close> query parameter is missing or empty, get a 400, and the state
  is the one the handler found: no call was made on the store or on the cache.
\<close>

theorem undecodable_or_unnamed_rejected:
  "(Decode (Body r) = Inl e \<longrightarrow>
      createUser flt r w =
        (\<lparr>status = 400, content_type = Some ''text/plain; charset=utf-8'', body = e @ [CHR 0x0A]\<rparr>, w)
      \<and> updateUser flt r w =
        (\<lparr>status = 400, content_type = Some ''text/plain; charset=utf-8'', body = e @ [CHR 0x0A]\<rparr>, w))
   \<and> (Query_Get r ''username'' = [] \<longrightarrow>
      deleteUser flt r w =
        (\<lparr>status = 400, content_type = Some ''text/plain; charset=utf-8'',
          body = ''Missing username parameter'' @ [CHR 0x0A]\<rparr>, w))"
  by (simp add: createUser_def updateUser_def deleteUser_def http_Error_def StatusBadRequest_def)

text \<open>A request with an empty body and no query, sent to each of the three routes.\<close>

theorem undecodable_or_unnamed_rejected_witness:
  "createUser no_faults req_list warm_world =
      (\<lparr>status = 400, content_type = Some ''text/plain; charset=utf-8'', body = ''EOF'' @ [CHR 0x0A]\<rparr>,
       warm_world)
   \<and> updateUser no_faults req_list warm_world =
      (\<lparr>status = 400, content_type = Some ''text/plain; charset=utf-8'', body = ''EOF'' @ [CHR 0x0A]\<rparr>,
       warm_world)
   \<and> deleteUser no_faults req_list warm_world =
      (\<lparr>status = 400, content_type = Some ''text/plain; charset=utf-8'',
        body = ''Missing username parameter'' @ [CHR 0x0A]\<rparr>, warm_world)"
proof -
  have d: "Decode (Body req_list) = Inl ''EOF''"
    by (simp add: req_list_def Decode_def)
  have n: "Query_Get req_list ''username'' = []"
    by (simp add: req_list_def Query_Get_def)
  show ?thesis
    using undecodable_or_unnamed_rejected [of req_list "''EOF''" no_faults warm_world] d n
    by simp
qed

text \<open>
  C5 as stated fails: presence is not checked on the JSON routes. The body
  \<^verbatim>\<open>{"email":"a@x.com"}\<close> has no \<^verbatim>\<open>username\<close>; it decodes with the empty string for the
  missing field, and \<open>createUser\<close> inserts the row, refreshes the cache and answers 201.
\<close>

theorem create_without_username_accepted:
  "map_of [(''email'', JStr ''a@x.com'')] ''username'' = None
   \<and> Body req_no_username = Inr (JObj [(''email'', JStr ''a@x.com'')])
   \<and> fst (createUser no_faults req_no_username empty_world) =
       \<lparr>status = 201, content_type = None, body = []\<rparr>
   \<and> table_rows (db (snd (createUser no_faults req_no_username empty_world))) =
       [\<lparr>ID = 1, Username = [], Email = ''a@x.com''\<rparr>]
   \<and> calls (snd (createUser no_faults req_no_username empty_world)) =
       [DB_Exec (INSERT [] ''a@x.com''), DB_Query,
        Rdb_Set ''users'' (encode_users [\<lparr>ID = 1, Username = [], Email = ''a@x.com''\<rparr>]) 300000000000]"
  by (simp add: Decode_no_username handler_defs adapter_defs response_defs scenario_defs)
     (simp add: req_no_username_def)

text \<open>
  C1, as amended. When \<^verbatim>\<open>db.Exec\<close> succeeds and every step of \<open>updateCache\<close> goes
  through, the write answers 201 (create) or 200 (update, delete), the table is the one
  the statement leaves, the entry under \<^verbatim>\<open>users\<close> is that table marshalled, expiring
  five minutes from now, and a \<^verbatim>\<open>GET /users\<close> that follows at once and whose probe
  does not fail is answered with that payload.
\<close>

theorem write_refreshes_cache:
  assumes "flt Exec_step = None"
    and "flt Query_step = None" and "rows_ok flt" and "flt Marshal_step = None"
    and "flt Set_step = None"
    and "flt' Get_step = None"
  shows
    "(Decode (Body r) = Inr u \<longrightarrow>
       (let d = execute (INSERT (Username u) (Email u)) (db w);
            w' = snd (createUser flt r w)
        in fst (createUser flt r w) = \<lparr>status = 201, content_type = None, body = []\<rparr>
           \<and> db w' = d
           \<and> rdb w' = (rdb w)(''users'' \<mapsto> \<lparr>content = RString (encode_users (table_rows d)),
                                           expires = Some (now w + 5 * Minute)\<rparr>)
           \<and> fst (getUsers flt' r' w') =
               \<lparr>status = 200, content_type = Some ''application/json'',
                body = encode_users (table_rows d)\<rparr>))
     \<and> (Decode (Body r) = Inr u \<longrightarrow>
       (let d = execute (UPDATE (Email u) (Username u)) (db w);
            w' = snd (updateUser flt r w)
        in fst (updateUser flt r w) = \<lparr>status = 200, content_type = None, body = []\<rparr>
           \<and> db w' = d
           \<and> rdb w' = (rdb w)(''users'' \<mapsto> \<lparr>content = RString (encode_users (table_rows d)),
                                           expires = Some (now w + 5 * Minute)\<rparr>)
           \<and> fst (getUsers flt' r' w') =
               \<lparr>status = 200, content_type = Some ''application/json'',
                body = encode_users (table_rows d)\<rparr>))
     \<and> (Query_Get r ''username'' \<noteq> [] \<longrightarrow>
       (let d = execute (DELETE (Query_Get r ''username'')) (db w);
            w' = snd (deleteUser flt r w)
        in fst (deleteUser flt r w) = \<lparr>status = 200, content_type = None, body = []\<rparr>
           \<and> db w' = d
           \<and> rdb w' = (rdb w)(''users'' \<mapsto> \<lparr>content = RString (encode_users (table_rows d)),
                                           expires = Some (now w + 5 * Minute)\<rparr>)
           \<and> fst (getUsers flt' r' w') =
               \<lparr>status = 200, content_type = Some ''application/json'',
                body = encode_users (table_rows d)\<rparr>))"
  using assms(1)
  by (simp add: createUser_decoded updateUser_decoded deleteUser_named Let_def
      refreshed_world [where flt = flt and flt' = flt', OF assms(2-6)] WriteHeader_def Write_json_def StatusOK_def StatusCreated_def)

text \<open>
  On the service with the empty collection cached: creating ann replaces the cached
  \<^verbatim>\<open>null\<close> by the array with her row, and the next read serves it.
\<close>

theorem write_refreshes_cache_witness:
  \<open>fst (createUser no_faults req_ann warm_world) = \<lparr>status = 201, content_type = None, body = []\<rparr>
   \<and> rdb (snd (createUser no_faults req_ann warm_world)) ''users'' =
       Some \<lparr>content = RString ''[{"id":1,"username":"ann","email":"a@x.com"}]'',
             expires = Some 300000000000\<rparr>
   \<and> fst (getUsers no_faults req_list (snd (createUser no_faults req_ann warm_world))) =
       \<lparr>status = 200, content_type = Some ''application/json'',
        body = ''[{"id":1,"username":"ann","email":"a@x.com"}]''\<rparr>
   \<and> fst (updateUser no_faults req_ann warm_world) = \<lparr>status = 200, content_type = None, body = []\<rparr>
   \<and> fst (getUsers no_faults req_list (snd (updateUser no_faults req_ann warm_world))) =
       \<lparr>status = 200, content_type = Some ''application/json'', body = ''null''\<rparr>
   \<and> fst (deleteUser no_faults req_delete_ann warm_world) =
       \<lparr>status = 200, content_type = None, body = []\<rparr>
   \<and> fst (getUsers no_faults req_list (snd (deleteUser no_faults req_delete_ann warm_world))) =
       \<lparr>status = 200, content_type = Some ''application/json'', body = ''null''\<rparr>\<close>
proof -
  have ok: "no_faults Exec_step = None" "no_faults Query_step = None" "rows_ok no_faults"
    "no_faults Marshal_step = None" "no_faults Set_step = None" "no_faults Get_step = None"
    by (simp_all add: rows_ok_no_faults) (simp_all add: no_faults_def)
  have n: "Query_Get req_delete_ann ''username'' = ''ann''"
    by (simp add: Query_Get_def req_delete_ann_def)
  have e: "execute (INSERT ''ann'' ''a@x.com'') (db warm_world) =
      \<lparr>table_rows = [ann], auto_increment = 2, collation = (=)\<rparr>"
    "table_rows (execute (UPDATE ''a@x.com'' ''ann'') (db warm_world)) = []"
    "table_rows (execute (DELETE ''ann'') (db warm_world)) = []"
    by (simp_all add: warm_world_eq execute_def ann_def)
  have t: "now warm_world + 5 * Minute = 300000000000"
    by (simp add: warm_world_eq Minute_def Second_def)
  show ?thesis
    using write_refreshes_cache [where flt = no_faults and flt' = no_faults and r = req_ann
          and u = "\<lparr>ID = 0, Username = ''ann'', Email = ''a@x.com''\<rparr>" and w = warm_world
          and r' = req_list, OF ok]
      write_refreshes_cache [where flt = no_faults and flt' = no_faults and r = req_delete_ann
          and w = warm_world and r' = req_list, OF ok]
    by (simp add: Decode_ann n e t Let_def encode_ann) (simp add: encode_users_def)
qed

text \<open>
  C1 as stated fails: a successful mutation alone does not refresh the cache. The cache
  holds \<^verbatim>\<open>null\<close>; ann is created while the cache refuses the write of \<open>updateCache\<close>;
  the response is 201, the table holds ann, the entry is still \<^verbatim>\<open>null\<close>, and the read that
  follows at once is served \<^verbatim>\<open>null\<close>.
\<close>

theorem failed_refresh_leaves_stale_cache:
  "fst (createUser (failing Set_step) req_ann warm_world) =
     \<lparr>status = 201, content_type = None, body = []\<rparr>
   \<and> table_rows (db (snd (createUser (failing Set_step) req_ann warm_world))) = [ann]
   \<and> rdb (snd (createUser (failing Set_step) req_ann warm_world)) ''users'' =
       Some \<lparr>content = RString ''null'', expires = Some 120000000000\<rparr>
   \<and> fst (getUsers no_faults req_list (snd (createUser (failing Set_step) req_ann warm_world))) =
       \<lparr>status = 200, content_type = Some ''application/json'', body = ''null''\<rparr>"
  by (simp add: warm_world_eq Decode_ann handler_defs adapter_defs response_defs scenario_defs)

text \<open>
  C4. When \<^verbatim>\<open>db.Exec\<close> succeeds, the write answers 201 (create) or 200 (update, delete)
  whatever happens next, and the state it leaves is that of \<open>updateCache\<close> run on the
  state with the statement executed. \<open>updateCache\<close> never changes the table, so the
  mutation stays applied; and when its query, a row scan, the marshalling or the cache
  write fails, it leaves the cache as it was and adds exactly one log line, the source's
  message with the error.
\<close>

theorem refresh_failure_swallowed:
  assumes "flt Exec_step = None"
  shows
    "(Decode (Body r) = Inr u \<longrightarrow>
        createUser flt r w =
          (\<lparr>status = 201, content_type = None, body = []\<rparr>,
           updateCache flt (called (DB_Exec (INSERT (Username u) (Email u)))
             (w\<lparr>db := execute (INSERT (Username u) (Email u)) (db w)\<rparr>))))
     \<and> (Decode (Body r) = Inr u \<longrightarrow>
        updateUser flt r w =
          (\<lparr>status = 200, content_type = None, body = []\<rparr>,
           updateCache flt (called (DB_Exec (UPDATE (Email u) (Username u)))
             (w\<lparr>db := execute (UPDATE (Email u) (Username u)) (db w)\<rparr>))))
     \<and> (Query_Get r ''username'' \<noteq> [] \<longrightarrow>
        deleteUser flt r w =
          (\<lparr>status = 200, content_type = None, body = []\<rparr>,
           updateCache flt (called (DB_Exec (DELETE (Query_Get r ''username'')))
             (w\<lparr>db := execute (DELETE (Query_Get r ''username'')) (db w)\<rparr>))))
     \<and> db (updateCache flt w1) = db w1
     \<and> (flt Query_step = Some e \<longrightarrow>
          rdb (updateCache flt w1) = rdb w1
          \<and> logs (updateCache flt w1) = logs w1 @ [''Failed to query MySQL: '' @ e])
     \<and> (flt Query_step = None \<and> scan_rows flt 0 (table_rows (db w1)) [] = Inl e \<longrightarrow>
          rdb (updateCache flt w1) = rdb w1
          \<and> logs (updateCache flt w1) = logs w1 @ [''Failed to scan row: '' @ e])
     \<and> (flt Query_step = None \<and> scan_rows flt 0 (table_rows (db w1)) [] = Inr us
          \<and> flt Marshal_step = Some e \<longrightarrow>
          rdb (updateCache flt w1) = rdb w1
          \<and> logs (updateCache flt w1) = logs w1 @ [''Failed to marshal JSON: '' @ e])
     \<and> (flt Query_step = None \<and> scan_rows flt 0 (table_rows (db w1)) [] = Inr us
          \<and> flt Marshal_step = None \<and> flt Set_step = Some e \<longrightarrow>
          rdb (updateCache flt w1) = rdb w1
          \<and> logs (updateCache flt w1) = logs w1 @ [''Failed to update Redis cache: '' @ e])"
proof -
  have handlers:
    "Decode (Body r) = Inr u \<longrightarrow>
        createUser flt r w =
          (\<lparr>status = 201, content_type = None, body = []\<rparr>,
           updateCache flt (called (DB_Exec (INSERT (Username u) (Email u)))
             (w\<lparr>db := execute (INSERT (Username u) (Email u)) (db w)\<rparr>)))"
    "Decode (Body r) = Inr u \<longrightarrow>
        updateUser flt r w =
          (\<lparr>status = 200, content_type = None, body = []\<rparr>,
           updateCache flt (called (DB_Exec (UPDATE (Email u) (Username u)))
             (w\<lparr>db := execute (UPDATE (Email u) (Username u)) (db w)\<rparr>)))"
    "Query_Get r ''username'' \<noteq> [] \<longrightarrow>
        deleteUser flt r w =
          (\<lparr>status = 200, content_type = None, body = []\<rparr>,
           updateCache flt (called (DB_Exec (DELETE (Query_Get r ''username'')))
             (w\<lparr>db := execute (DELETE (Query_Get r ''username'')) (db w)\<rparr>)))"
    using assms
    by (simp_all add: createUser_decoded updateUser_decoded deleteUser_named WriteHeader_def
        StatusOK_def StatusCreated_def)
  have q: "flt Query_step = Some e \<longrightarrow>
          rdb (updateCache flt w1) = rdb w1
          \<and> logs (updateCache flt w1) = logs w1 @ [''Failed to query MySQL: '' @ e]"
    by (simp add: updateCache_query_fails)
  have s: "flt Query_step = None \<and> scan_rows flt 0 (table_rows (db w1)) [] = Inl e \<longrightarrow>
          rdb (updateCache flt w1) = rdb w1
          \<and> logs (updateCache flt w1) = logs w1 @ [''Failed to scan row: '' @ e]"
    by (simp add: updateCache_scan_fails)
  have m: "flt Query_step = None \<and> scan_rows flt 0 (table_rows (db w1)) [] = Inr us
          \<and> flt Marshal_step = Some e \<longrightarrow>
          rdb (updateCache flt w1) = rdb w1
          \<and> logs (updateCache flt w1) = logs w1 @ [''Failed to marshal JSON: '' @ e]"
    by (simp add: updateCache_marshal_fails)
  have c: "flt Query_step = None \<and> scan_rows flt 0 (table_rows (db w1)) [] = Inr us
          \<and> flt Marshal_step = None \<and> flt Set_step = Some e \<longrightarrow>
          rdb (updateCache flt w1) = rdb w1
          \<and> logs (updateCache flt w1) = logs w1 @ [''Failed to update Redis cache: '' @ e]"
    by (simp add: updateCache_set_fails)
  from handlers q s m c show ?thesis
    by (simp only: updateCache_db simp_thms)
qed

text \<open>
  Four writes on the service with the empty collection cached, each with one failing step
  of the refresh: the responses report success, the table holds the mutation, one line is
  logged.
\<close>

theorem refresh_failure_swallowed_witness:
  "fst (createUser (failing Set_step) req_ann warm_world) =
     \<lparr>status = 201, content_type = None, body = []\<rparr>
   \<and> table_rows (db (snd (createUser (failing Set_step) req_ann warm_world))) = [ann]
   \<and> logs (snd (createUser (failing Set_step) req_ann warm_world)) =
       [''Failed to update Redis cache: connection refused'']
   \<and> rdb (snd (createUser (failing Set_step) req_ann warm_world)) = rdb warm_world
   \<and> fst (deleteUser (failing Query_step) req_delete_ann warm_world) =
     \<lparr>status = 200, content_type = None, body = []\<rparr>
   \<and> logs (snd (deleteUser (failing Query_step) req_delete_ann warm_world)) =
       [''Failed to query MySQL: connection refused'']
   \<and> fst (updateUser (failing Marshal_step) req_ann warm_world) =
     \<lparr>status = 200, content_type = None, body = []\<rparr>
   \<and> logs (snd (updateUser (failing Marshal_step) req_ann warm_world)) =
       [''Failed to marshal JSON: connection refused'']
   \<and> fst (createUser (failing (Scan_step 0)) req_ann warm_world) =
     \<lparr>status = 201, content_type = None, body = []\<rparr>
   \<and> logs (snd (createUser (failing (Scan_step 0)) req_ann warm_world)) =
       [''Failed to scan row: connection refused'']"
proof -
  let ?u = "\<lparr>ID = 0, Username = ''ann'', Email = ''a@x.com''\<rparr>"
  let ?e = "''connection refused''"
  let ?w1 = "called (DB_Exec (INSERT ''ann'' ''a@x.com''))
      (warm_world\<lparr>db := execute (INSERT ''ann'' ''a@x.com'') (db warm_world)\<rparr>)"
  let ?w2 = "called (DB_Exec (DELETE ''ann''))
      (warm_world\<lparr>db := execute (DELETE ''ann'') (db warm_world)\<rparr>)"
  let ?w3 = "called (DB_Exec (UPDATE ''a@x.com'' ''ann''))
      (warm_world\<lparr>db := execute (UPDATE ''a@x.com'' ''ann'') (db warm_world)\<rparr>)"
  have n: "Query_Get req_delete_ann ''username'' = ''ann''"
    by (simp add: Query_Get_def req_delete_ann_def)
  have x: "failing Set_step Exec_step = None" "failing Query_step Exec_step = None"
    "failing Marshal_step Exec_step = None" "failing (Scan_step 0) Exec_step = None"
    by (simp_all add: failing_def)
  have f: "failing Set_step Query_step = None" "failing Set_step Marshal_step = None"
    "failing Set_step Set_step = Some ?e" "failing Query_step Query_step = Some ?e"
    "failing Marshal_step Query_step = None" "failing Marshal_step Marshal_step = Some ?e"
    "failing (Scan_step 0) Query_step = None"
    by (simp_all add: failing_def)
  have t: "table_rows (execute (INSERT ''ann'' ''a@x.com'') (db warm_world)) = [ann]"
    "table_rows (execute (UPDATE ''a@x.com'' ''ann'') (db warm_world)) = []"
    by (simp_all add: warm_world_eq execute_def ann_def)
  have sc: "scan_rows (failing Set_step) 0 [ann] [] = Inr [ann]"
    "scan_rows (failing Marshal_step) 0 [] [] = Inr []"
    "scan_rows (failing (Scan_step 0)) 0 [ann] [] = Inl ?e"
    by (simp_all add: failing_def)
  have l: "logs warm_world = []"
    by (simp add: warm_world_eq)
  note a = refresh_failure_swallowed [where flt = "failing Set_step" and r = req_ann and u = ?u
      and w = warm_world and ?w1.0 = ?w1 and e = ?e and us = "[ann]", OF x(1)]
  note b = refresh_failure_swallowed [where flt = "failing Query_step" and r = req_delete_ann
      and w = warm_world and ?w1.0 = ?w2 and e = ?e, OF x(2)]
  note c = refresh_failure_swallowed [where flt = "failing Marshal_step" and r = req_ann and u = ?u
      and w = warm_world and ?w1.0 = ?w3 and e = ?e and us = "[]", OF x(3)]
  note d = refresh_failure_swallowed [where flt = "failing (Scan_step 0)" and r = req_ann
      and u = ?u and w = warm_world and ?w1.0 = ?w1 and e = ?e, OF x(4)]
  show ?thesis
    using a b c d
    by (simp add: Decode_ann n f sc l t del: scan_rows.simps)
qed

subsection \<open>The expiry of the cached collection\<close>

lemma rdb_Get_advance:
  "flt' Get_step = None \<Longrightarrow>
   rdb w k = Some \<lparr>content = RString p, expires = Some (now w + ttl)\<rparr> \<Longrightarrow>
   (fst (rdb_Get flt' k (advance d w)) = Inr p) = (d < ttl)"
  by (simp add: rdb_Get_def live_def advance_def)

lemma updateCache_window:
  assumes "flt Query_step = None" "rows_ok flt" "flt Marshal_step = None" "flt Set_step = None"
    and "flt' Get_step = None"
  shows "map_option expires (rdb (updateCache flt w) ''users'') = Some (Some (now w + 5 * Minute))"
    and "(fst (rdb_Get flt' ''users'' (advance d (updateCache flt w))) =
            Inr (encode_users (table_rows (db w)))) = (d < 5 * Minute)"
proof -
  note u = refreshed_world(1) [where flt = flt and flt' = flt', OF assms]
  show "map_option expires (rdb (updateCache flt w) ''users'') = Some (Some (now w + 5 * Minute))"
    by (simp add: u)
  have "rdb (updateCache flt w) ''users'' =
      Some \<lparr>content = RString (encode_users (table_rows (db w))),
            expires = Some (now (updateCache flt w) + 5 * Minute)\<rparr>"
    by (simp add: u)
  from rdb_Get_advance [where flt' = flt', OF assms(5) this]
  show "(fst (rdb_Get flt' ''users'' (advance d (updateCache flt w))) =
            Inr (encode_users (table_rows (db w)))) = (d < 5 * Minute)" .
qed

lemma read_window:
  assumes "fst (rdb_Get flt ''users'' w) = Inl e"
    and "flt Query_step = None" "rows_ok flt" "flt Marshal_step = None" "flt Set_step = None"
    and "flt' Get_step = None"
  shows "map_option expires (rdb (snd (getUsers flt r w)) ''users'') = Some (Some (now w + 2 * Minute))"
    and "(fst (rdb_Get flt' ''users'' (advance d (snd (getUsers flt r w)))) =
            Inr (encode_users (table_rows (db w)))) = (d < 2 * Minute)"
proof -
  note g = probe_miss [OF assms(1-5), of r]
  show "map_option expires (rdb (snd (getUsers flt r w)) ''users'') = Some (Some (now w + 2 * Minute))"
    by (simp add: g)
  have "rdb (snd (getUsers flt r w)) ''users'' =
      Some \<lparr>content = RString (encode_users (table_rows (db w))),
            expires = Some (now (snd (getUsers flt r w)) + 2 * Minute)\<rparr>"
    by (simp add: g)
  from rdb_Get_advance [where flt' = flt', OF assms(6) this]
  show "(fst (rdb_Get flt' ''users'' (advance d (snd (getUsers flt r w)))) =
            Inr (encode_users (table_rows (db w)))) = (d < 2 * Minute)" .
qed

lemma write_window:
  assumes "flt Query_step = None" "rows_ok flt" "flt Marshal_step = None" "flt Set_step = None"
    and "flt' Get_step = None"
    and "w' = updateCache flt ws" and "now ws = now w"
  shows "let w' = w' in
           map_option expires (rdb w' ''users'') = Some (Some (now w + 5 * Minute))
           \<and> (fst (rdb_Get flt' ''users'' (advance d w')) = Inr (encode_users (table_rows (db w'))))
               = (d < 5 * Minute)"
  using updateCache_window(1) [where flt = flt and flt' = flt' and w = ws, OF assms(1-5)]
    updateCache_window(2) [where flt = flt and flt' = flt' and w = ws and d = d, OF assms(1-5)]
  by (simp add: assms(6,7) Let_def)

text \<open>
  C10. The entry under \<^verbatim>\<open>users\<close> expires two minutes after a read that repopulated it and
  five minutes after a write that refreshed it (120 and 300 seconds): as time \<open>d\<close> passes
  with no other request, a probe finds the payload exactly while \<open>d\<close> is less than two
  minutes in the first case and less than five in the second.
\<close>

theorem users_entry_ttl_by_path:
  assumes "flt Query_step = None" and "rows_ok flt" and "flt Marshal_step = None"
    and "flt Set_step = None" and "flt' Get_step = None"
  shows
    "(fst (rdb_Get flt ''users'' w) = Inl e \<longrightarrow>
        (let w' = snd (getUsers flt r w) in
           map_option expires (rdb w' ''users'') = Some (Some (now w + 2 * Minute))
           \<and> (fst (rdb_Get flt' ''users'' (advance d w')) = Inr (encode_users (table_rows (db w'))))
               = (d < 2 * Minute)))
     \<and> (flt Exec_step = None \<and> Decode (Body r) = Inr u \<longrightarrow>
        (let w' = snd (createUser flt r w) in
           map_option expires (rdb w' ''users'') = Some (Some (now w + 5 * Minute))
           \<and> (fst (rdb_Get flt' ''users'' (advance d w')) = Inr (encode_users (table_rows (db w'))))
               = (d < 5 * Minute)))
     \<and> (flt Exec_step = None \<and> Decode (Body r) = Inr u \<longrightarrow>
        (let w' = snd (updateUser flt r w) in
           map_option expires (rdb w' ''users'') = Some (Some (now w + 5 * Minute))
           \<and> (fst (rdb_Get flt' ''users'' (advance d w')) = Inr (encode_users (table_rows (db w'))))
               = (d < 5 * Minute)))
     \<and> (flt Exec_step = None \<and> Query_Get r ''username'' \<noteq> [] \<longrightarrow>
        (let w' = snd (deleteUser flt r w) in
           map_option expires (rdb w' ''users'') = Some (Some (now w + 5 * Minute))
           \<and> (fst (rdb_Get flt' ''users'' (advance d w')) = Inr (encode_users (table_rows (db w'))))
               = (d < 5 * Minute)))
     \<and> 2 * Minute = 120 * Second \<and> 5 * Minute = 300 * Second"
proof -
  have read: "fst (rdb_Get flt ''users'' w) = Inl e \<longrightarrow>
        (let w' = snd (getUsers flt r w) in
           map_option expires (rdb w' ''users'') = Some (Some (now w + 2 * Minute))
           \<and> (fst (rdb_Get flt' ''users'' (advance d w')) = Inr (encode_users (table_rows (db w'))))
               = (d < 2 * Minute))"
  proof
    assume miss: "fst (rdb_Get flt ''users'' w) = Inl e"
    have "db (snd (getUsers flt r w)) = db w"
      by (simp add: probe_miss [OF miss assms(1-4)])
    then show "let w' = snd (getUsers flt r w) in
           map_option expires (rdb w' ''users'') = Some (Some (now w + 2 * Minute))
           \<and> (fst (rdb_Get flt' ''users'' (advance d w')) = Inr (encode_users (table_rows (db w'))))
               = (d < 2 * Minute)"
      using read_window(1) [where flt = flt and flt' = flt' and r = r, OF miss assms]
        read_window(2) [where flt = flt and flt' = flt' and r = r and d = d, OF miss assms]
      by (simp add: Let_def)
  qed
  have writes:
    "flt Exec_step = None \<and> Decode (Body r) = Inr u \<longrightarrow>
        (let w' = snd (createUser flt r w) in
           map_option expires (rdb w' ''users'') = Some (Some (now w + 5 * Minute))
           \<and> (fst (rdb_Get flt' ''users'' (advance d w')) = Inr (encode_users (table_rows (db w'))))
               = (d < 5 * Minute))"
    "flt Exec_step = None \<and> Decode (Body r) = Inr u \<longrightarrow>
        (let w' = snd (updateUser flt r w) in
           map_option expires (rdb w' ''users'') = Some (Some (now w + 5 * Minute))
           \<and> (fst (rdb_Get flt' ''users'' (advance d w')) = Inr (encode_users (table_rows (db w'))))
               = (d < 5 * Minute))"
    "flt Exec_step = None \<and> Query_Get r ''username'' \<noteq> [] \<longrightarrow>
        (let w' = snd (deleteUser flt r w) in
           map_option expires (rdb w' ''users'') = Some (Some (now w + 5 * Minute))
           \<and> (fst (rdb_Get flt' ''users'' (advance d w')) = Inr (encode_users (table_rows (db w'))))
               = (d < 5 * Minute))"
  proof -
    show "flt Exec_step = None \<and> Decode (Body r) = Inr u \<longrightarrow>
        (let w' = snd (createUser flt r w) in
           map_option expires (rdb w' ''users'') = Some (Some (now w + 5 * Minute))
           \<and> (fst (rdb_Get flt' ''users'' (advance d w')) = Inr (encode_users (table_rows (db w'))))
               = (d < 5 * Minute))"
    proof
      assume h: "flt Exec_step = None \<and> Decode (Body r) = Inr u"
      show "let w' = snd (createUser flt r w) in
           map_option expires (rdb w' ''users'') = Some (Some (now w + 5 * Minute))
           \<and> (fst (rdb_Get flt' ''users'' (advance d w')) = Inr (encode_users (table_rows (db w'))))
               = (d < 5 * Minute)"
        by (rule write_window [where flt = flt and flt' = flt'
              and ws = "called (DB_Exec (INSERT (Username u) (Email u))) (w\<lparr>db := execute (INSERT (Username u) (Email u)) (db w)\<rparr>)", OF assms])
           (use h in \<open>simp_all add: createUser_decoded\<close>)
    qed
    show "flt Exec_step = None \<and> Decode (Body r) = Inr u \<longrightarrow>
        (let w' = snd (updateUser flt r w) in
           map_option expires (rdb w' ''users'') = Some (Some (now w + 5 * Minute))
           \<and> (fst (rdb_Get flt' ''users'' (advance d w')) = Inr (encode_users (table_rows (db w'))))
               = (d < 5 * Minute))"
    proof
      assume h: "flt Exec_step = None \<and> Decode (Body r) = Inr u"
      show "let w' = snd (updateUser flt r w) in
           map_option expires (rdb w' ''users'') = Some (Some (now w + 5 * Minute))
           \<and> (fst (rdb_Get flt' ''users'' (advance d w')) = Inr (encode_users (table_rows (db w'))))
               = (d < 5 * Minute)"
        by (rule write_window [where flt = flt and flt' = flt'
              and ws = "called (DB_Exec (UPDATE (Email u) (Username u))) (w\<lparr>db := execute (UPDATE (Email u) (Username u)) (db w)\<rparr>)", OF assms])
           (use h in \<open>simp_all add: updateUser_decoded\<close>)
    qed
    show "flt Exec_step = None \<and> Query_Get r ''username'' \<noteq> [] \<longrightarrow>
        (let w' = snd (deleteUser flt r w) in
           map_option expires (rdb w' ''users'') = Some (Some (now w + 5 * Minute))
           \<and> (fst (rdb_Get flt' ''users'' (advance d w')) = Inr (encode_users (table_rows (db w'))))
               = (d < 5 * Minute))"
    proof
      assume h: "flt Exec_step = None \<and> Query_Get r ''username'' \<noteq> []"
      show "let w' = snd (deleteUser flt r w) in
           map_option expires (rdb w' ''users'') = Some (Some (now w + 5 * Minute))
           \<and> (fst (rdb_Get flt' ''users'' (advance d w')) = Inr (encode_users (table_rows (db w'))))
               = (d < 5 * Minute)"
        by (rule write_window [where flt = flt and flt' = flt'
              and ws = "called (DB_Exec (DELETE (Query_Get r ''username''))) (w\<lparr>db := execute (DELETE (Query_Get r ''username'')) (db w)\<rparr>)", OF assms])
           (use h in \<open>simp_all add: deleteUser_named\<close>)
    qed
  qed
  have "2 * Minute = 120 * Second \<and> 5 * Minute = 300 * Second"
    by (simp add: Minute_def)
  with read writes show ?thesis
    by (simp only: simp_thms)
qed

text \<open>
  On the empty service: the entry of a first read is found after 119.999999999 seconds and
  gone after 120; the entry a delete leaves is found until 300 seconds have passed.
\<close>

theorem users_entry_ttl_by_path_witness:
  "map_option expires (rdb (snd (getUsers no_faults req_list empty_world)) ''users'') =
      Some (Some 120000000000)
   \<and> fst (rdb_Get no_faults ''users'' (advance 119999999999 (snd (getUsers no_faults req_list empty_world)))) =
      Inr ''null''
   \<and> fst (rdb_Get no_faults ''users'' (advance 120000000000 (snd (getUsers no_faults req_list empty_world)))) \<noteq>
      Inr ''null''
   \<and> map_option expires (rdb (snd (deleteUser no_faults req_delete_ann empty_world)) ''users'') =
      Some (Some 300000000000)
   \<and> fst (rdb_Get no_faults ''users'' (advance 299999999999 (snd (deleteUser no_faults req_delete_ann empty_world)))) =
      Inr ''null''
   \<and> fst (rdb_Get no_faults ''users'' (advance 300000000000 (snd (deleteUser no_faults req_delete_ann empty_world)))) \<noteq>
      Inr ''null''
   \<and> map_option expires (rdb (snd (createUser no_faults req_ann empty_world)) ''users'') =
      Some (Some 300000000000)
   \<and> map_option expires (rdb (snd (updateUser no_faults req_ann empty_world)) ''users'') =
      Some (Some 300000000000)"
proof -
  have ok: "no_faults Query_step = None" "rows_ok no_faults" "no_faults Marshal_step = None"
    "no_faults Set_step = None" "no_faults Get_step = None"
    by (simp_all add: rows_ok_no_faults) (simp_all add: no_faults_def)
  have x: "no_faults Exec_step = None"
    by (simp add: no_faults_def)
  have miss: "fst (rdb_Get no_faults ''users'' empty_world) = Inl redis_Nil"
    by (simp add: rdb_Get_def live_def no_faults_def empty_world_def)
  have n: "Query_Get req_delete_ann ''username'' = ''ann''"
    by (simp add: Query_Get_def req_delete_ann_def)
  have t: "now empty_world = 0" "2 * Minute = 120000000000" "5 * Minute = 300000000000"
    by (simp_all add: empty_world_def Minute_def Second_def)
  have r1: "table_rows (db (snd (getUsers no_faults req_list empty_world))) = []"
    using probe_miss [OF miss ok(1-4), of req_list] by (simp add: empty_world_def)
  have r2: "table_rows (db (snd (deleteUser no_faults req_delete_ann empty_world))) = []"
    by (simp add: deleteUser_named n x execute_def empty_world_def)
  note a = users_entry_ttl_by_path [where flt = no_faults and flt' = no_faults
      and w = empty_world and e = redis_Nil and r = req_list and d = 119999999999, OF ok]
  note b = users_entry_ttl_by_path [where flt = no_faults and flt' = no_faults
      and w = empty_world and e = redis_Nil and r = req_list and d = 120000000000, OF ok]
  note c = users_entry_ttl_by_path [where flt = no_faults and flt' = no_faults
      and w = empty_world and r = req_delete_ann and d = 299999999999, OF ok]
  note d = users_entry_ttl_by_path [where flt = no_faults and flt' = no_faults
      and w = empty_world and r = req_delete_ann and d = 300000000000, OF ok]
  note e = users_entry_ttl_by_path [where flt = no_faults and flt' = no_faults
      and w = empty_world and r = req_ann
      and u = "\<lparr>ID = 0, Username = ''ann'', Email = ''a@x.com''\<rparr>", OF ok]
  show ?thesis
    using a b c d e
    by (simp add: Let_def miss x n t r1 r2 Decode_ann encode_users_def)
qed

subsection \<open>The generic routes and the cached collection\<close>

lemma rdb_Get_Inr:
  "fst (rdb_Get flt k w) = Inr v \<longleftrightarrow>
     flt Get_step = None \<and> (\<exists>e. live w k = Some e \<and> content e = RString v)"
  by (auto simp: rdb_Get_def split: option.splits rvalue.splits)

lemma setString_keeps:
  "Query_Get r ''key'' \<noteq> ''users'' \<Longrightarrow>
   live (snd (setString flt r w)) ''users'' = live w ''users'' \<and> db (snd (setString flt r w)) = db w"
  by (auto simp: setString_def rdb_Set_def live_def Let_def split: option.splits)

lemma getString_keeps:
  "live (snd (getString flt r w)) k = live w k \<and> db (snd (getString flt r w)) = db w"
  by (auto simp: getString_def rdb_Get_def Let_def live_def split: option.splits rvalue.splits)

lemma getList_keeps:
  "live (snd (getList flt r w)) k = live w k \<and> db (snd (getList flt r w)) = db w"
  by (auto simp: getList_def rdb_LRange_def Let_def live_def split: option.splits rvalue.splits)

lemma getHash_keeps:
  "live (snd (getHash flt r w)) k = live w k \<and> db (snd (getHash flt r w)) = db w"
  by (auto simp: getHash_def rdb_HGet_def Let_def live_def split: option.splits rvalue.splits)

lemma setList_keeps:
  "live (snd (setList flt r w)) ''users'' = Some e \<Longrightarrow> content e = RString v \<Longrightarrow>
   live w ''users'' = Some e"
  by (auto simp: setList_def rdb_RPush_def Let_def live_def split: option.splits rvalue.splits if_splits)

lemma setList_db: "db (snd (setList flt r w)) = db w"
  by (auto simp: setList_def rdb_RPush_def Let_def split: option.splits rvalue.splits)

lemma setHash_keeps:
  "live (snd (setHash flt r w)) ''users'' = Some e \<Longrightarrow> content e = RString v \<Longrightarrow>
   live w ''users'' = Some e"
  by (auto simp: setHash_def rdb_HSet_def Let_def live_def split: option.splits rvalue.splits if_splits)

lemma setHash_db: "db (snd (setHash flt r w)) = db w"
  by (auto simp: setHash_def rdb_HSet_def Let_def split: option.splits rvalue.splits)

lemma serve_routes:
  "serve ''/set-string'' = setString" "serve ''/get-string'' = getString"
  "serve ''/set-list'' = setList" "serve ''/get-list'' = getList"
  "serve ''/set-hash'' = setHash" "serve ''/get-hash'' = getHash"
  "serve ''/users'' = getUsers" "serve ''/user'' = createUser"
  "serve ''/user/update'' = updateUser" "serve ''/user/delete'' = deleteUser"
  by (simp_all add: serve_def routes_def fun_eq_iff)

lemma setList_probe:
  "fst (rdb_Get flt' ''users'' (snd (setList flt r w))) = Inr v \<Longrightarrow>
   fst (rdb_Get flt' ''users'' w) = Inr v"
  unfolding rdb_Get_Inr using setList_keeps by blast

lemma setHash_probe:
  "fst (rdb_Get flt' ''users'' (snd (setHash flt r w))) = Inr v \<Longrightarrow>
   fst (rdb_Get flt' ''users'' w) = Inr v"
  unfolding rdb_Get_Inr using setHash_keeps by blast

lemma setString_probe:
  "Query_Get r ''key'' \<noteq> ''users'' \<Longrightarrow>
   fst (rdb_Get flt' ''users'' (snd (setString flt r w))) = Inr v \<Longrightarrow>
   fst (rdb_Get flt' ''users'' w) = Inr v"
  unfolding rdb_Get_Inr by (simp add: setString_keeps)

lemma get_probes:
  "fst (rdb_Get flt' ''users'' (snd (getString flt r w))) = Inr v \<Longrightarrow>
   fst (rdb_Get flt' ''users'' w) = Inr v"
  "fst (rdb_Get flt' ''users'' (snd (getList flt r w))) = Inr v \<Longrightarrow>
   fst (rdb_Get flt' ''users'' w) = Inr v"
  "fst (rdb_Get flt' ''users'' (snd (getHash flt r w))) = Inr v \<Longrightarrow>
   fst (rdb_Get flt' ''users'' w) = Inr v"
  unfolding rdb_Get_Inr by (simp_all add: getString_keeps getList_keeps getHash_keeps)

text \<open>
  C9, as amended. The generic routes share the key space of the cache with the collection.
  A request to \<^verbatim>\<open>/set-list\<close>, \<^verbatim>\<open>/set-hash\<close> or one of the three get routes, with any key,
  and a request to \<^verbatim>\<open>/set-string\<close> with a key other than \<^verbatim>\<open>users\<close>, leave the table
  alone, and a \<^verbatim>\<open>GET /users\<close> served from the cache after it is served the payload it
  would have been served before it.
\<close>

theorem generic_routes_keep_users_payload:
  assumes "path \<in> {''/set-string'', ''/get-string'', ''/set-list'', ''/get-list'', ''/set-hash'',
                    ''/get-hash''}"
    and "path = ''/set-string'' \<longrightarrow> Query_Get r ''key'' \<noteq> ''users''"
    and "fst (rdb_Get flt' ''users'' (snd (serve path flt r w))) = Inr v"
  shows "fst (getUsers flt' r' (snd (serve path flt r w))) =
           \<lparr>status = 200, content_type = Some ''application/json'', body = v\<rparr>
         \<and> fst (getUsers flt' r' w) =
           \<lparr>status = 200, content_type = Some ''application/json'', body = v\<rparr>
         \<and> db (snd (serve path flt r w)) = db w"
proof -
  from assms(1) consider
      (set_string) "path = ''/set-string''" | (get_string) "path = ''/get-string''"
    | (set_list) "path = ''/set-list''" | (get_list) "path = ''/get-list''"
    | (set_hash) "path = ''/set-hash''" | (get_hash) "path = ''/get-hash''"
    by (elim insertE emptyE)
  then have "fst (rdb_Get flt' ''users'' w) = Inr v \<and> db (snd (serve path flt r w)) = db w"
  proof cases
    case set_string
    with assms(2) have k: "Query_Get r ''key'' \<noteq> ''users''"
      by simp
    from assms(3) have "fst (rdb_Get flt' ''users'' (snd (setString flt r w))) = Inr v"
      by (simp only: set_string serve_routes)
    then have "fst (rdb_Get flt' ''users'' w) = Inr v"
      by (rule setString_probe [OF k])
    moreover have "db (snd (serve path flt r w)) = db w"
      by (simp only: set_string serve_routes setString_keeps [OF k])
    ultimately show ?thesis ..
  next
    case get_string
    from assms(3) have "fst (rdb_Get flt' ''users'' (snd (getString flt r w))) = Inr v"
      by (simp only: get_string serve_routes)
    then have "fst (rdb_Get flt' ''users'' w) = Inr v"
      by (rule get_probes)
    moreover have "db (snd (serve path flt r w)) = db w"
      by (simp only: get_string serve_routes getString_keeps)
    ultimately show ?thesis ..
  next
    case set_list
    from assms(3) have "fst (rdb_Get flt' ''users'' (snd (setList flt r w))) = Inr v"
      by (simp only: set_list serve_routes)
    then have "fst (rdb_Get flt' ''users'' w) = Inr v"
      by (rule setList_probe)
    moreover have "db (snd (serve path flt r w)) = db w"
      by (simp only: set_list serve_routes setList_db)
    ultimately show ?thesis ..
  next
    case get_list
    from assms(3) have "fst (rdb_Get flt' ''users'' (snd (getList flt r w))) = Inr v"
      by (simp only: get_list serve_routes)
    then have "fst (rdb_Get flt' ''users'' w) = Inr v"
      by (rule get_probes)
    moreover have "db (snd (serve path flt r w)) = db w"
      by (simp only: get_list serve_routes getList_keeps)
    ultimately show ?thesis ..
  next
    case set_hash
    from assms(3) have "fst (rdb_Get flt' ''users'' (snd (setHash flt r w))) = Inr v"
      by (simp only: set_hash serve_routes)
    then have "fst (rdb_Get flt' ''users'' w) = Inr v"
      by (rule setHash_probe)
    moreover have "db (snd (serve path flt r w)) = db w"
      by (simp only: set_hash serve_routes setHash_db)
    ultimately show ?thesis ..
  next
    case get_hash
    from assms(3) have "fst (rdb_Get flt' ''users'' (snd (getHash flt r w))) = Inr v"
      by (simp only: get_hash serve_routes)
    then have "fst (rdb_Get flt' ''users'' w) = Inr v"
      by (rule get_probes)
    moreover have "db (snd (serve path flt r w)) = db w"
      by (simp only: get_hash serve_routes getHash_keeps)
    ultimately show ?thesis ..
  qed
  then have before: "fst (rdb_Get flt' ''users'' w) = Inr v"
    and store: "db (snd (serve path flt r w)) = db w"
    by simp_all
  show ?thesis
    by (simp add: probe_hit [OF assms(3)] probe_hit [OF before] store Write_json_def
        StatusOK_def)
qed

text \<open>Setting the string \<^verbatim>\<open>greeting\<close> on the service with the empty collection cached.\<close>

theorem generic_routes_keep_users_payload_witness:
  "fst (getUsers no_faults req_list (snd (serve ''/set-string'' no_faults req_set_greeting warm_world))) =
      \<lparr>status = 200, content_type = Some ''application/json'', body = ''null''\<rparr>
   \<and> fst (getUsers no_faults req_list warm_world) =
      \<lparr>status = 200, content_type = Some ''application/json'', body = ''null''\<rparr>
   \<and> rdb (snd (serve ''/set-string'' no_faults req_set_greeting warm_world)) ''greeting'' =
      Some \<lparr>content = RString ''hello'', expires = None\<rparr>"
proof -
  have w: "snd (serve ''/set-string'' no_faults req_set_greeting warm_world) =
     warm_world\<lparr>rdb := (rdb warm_world)(''greeting'' \<mapsto> \<lparr>content = RString ''hello'', expires = None\<rparr>),
       calls := calls warm_world @ [Rdb_Set ''greeting'' ''hello'' 0]\<rparr>"
    by (simp add: serve_routes setString_def adapter_defs req_set_greeting_def no_faults_def Let_def)
  have p: "''/set-string'' \<in> {''/set-string'', ''/get-string'', ''/set-list'', ''/get-list'',
      ''/set-hash'', ''/get-hash''}"
    by simp
  have k: "''/set-string'' = ''/set-string'' \<longrightarrow> Query_Get req_set_greeting ''key'' \<noteq> ''users''"
    by (simp add: Query_Get_def req_set_greeting_def)
  have h: "fst (rdb_Get no_faults ''users''
      (snd (serve ''/set-string'' no_faults req_set_greeting warm_world))) = Inr ''null''"
    unfolding w by (simp add: warm_world_eq rdb_Get_def live_def no_faults_def)
  show ?thesis
    using generic_routes_keep_users_payload [where flt' = no_faults and flt = no_faults
        and r' = req_list, OF p k h]
    by (simp add: w)
qed

text \<open>
  C9 as stated fails for the key \<^verbatim>\<open>users\<close>: \<^verbatim>\<open>/set-string?key=users&value=hello\<close>
  overwrites the cached collection, and the next \<^verbatim>\<open>GET /users\<close> is a hit that serves
  \<^verbatim>\<open>hello\<close> as JSON.
\<close>

theorem setString_users_replaces_payload:
  "Query_Get req_set_users ''key'' = ''users''
   \<and> fst (getUsers no_faults req_list warm_world) =
      \<lparr>status = 200, content_type = Some ''application/json'', body = ''null''\<rparr>
   \<and> fst (serve ''/set-string'' no_faults req_set_users warm_world) =
      \<lparr>status = 200, content_type = None, body = []\<rparr>
   \<and> fst (rdb_Get no_faults ''users'' (snd (serve ''/set-string'' no_faults req_set_users warm_world))) =
      Inr ''hello''
   \<and> fst (getUsers no_faults req_list (snd (serve ''/set-string'' no_faults req_set_users warm_world))) =
      \<lparr>status = 200, content_type = Some ''application/json'', body = ''hello''\<rparr>"
  by (simp add: serve_routes warm_world_eq handler_defs adapter_defs response_defs scenario_defs
      Let_def)

end
